theory Spec2Isabelle
  imports Complex_Main
begin

section \<open>The posting backend of \<^verbatim>\<open>src/server.js\<close>\<close>

text \<open>
  The server is one file of Express handlers over two Mongoose models, \<^verbatim>\<open>User\<close> and
  \<^verbatim>\<open>Post\<close>. The embedding keeps the handlers as they are written: every early
  \<^verbatim>\<open>return res.status(...)\<close> is a branch, every \<^verbatim>\<open>catch\<close> is the \<open>Inl\<close> case of a
  result, and the database is an explicit state that a handler takes and returns.

  Three libraries are called and none of them is part of the repository: \<^verbatim>\<open>jsonwebtoken\<close>,
  \<^verbatim>\<open>bcrypt\<close> and Mongoose. What they compute is a parameter of the model (the record
  \<open>env\<close>): signing and verifying a token, the bcrypt function on the bytes it reads,
  Mongoose's casts of a value to a String and to an ObjectId, and the answer of the
  store to a filter that is not a plain value. What the handlers depend on of their
  behaviour is written into the model: a cast that fails makes the call throw, bcrypt
  throws on an argument that is not a string and reads the first 72 bytes of a
  password, \<^verbatim>\<open>required\<close> refuses an empty string. The store is the state \<open>store\<close>: two
  lists of documents in insertion order. Outages of the database are outside the
  model.
\<close>

subsection \<open>JavaScript values\<close>

text \<open>
  The values \<^verbatim>\<open>bodyParser.json()\<close> delivers in a request, a decoded token carries and a
  path of a document holds: \<^verbatim>\<open>undefined\<close> (also what reading a missing property
  gives), \<^verbatim>\<open>null\<close>, booleans, numbers, strings, arrays, objects, and the
  \<^verbatim>\<open>ObjectId\<close> of a document, carried as the 24 hexadecimal digits \<^verbatim>\<open>toString()\<close>
  prints. A number is the finite double the parser made, as the rational it is.
  \<open>truthy\<close> is JavaScript's coercion to a boolean, as \<^verbatim>\<open>!username\<close> uses it.
\<close>

type_synonym oid = string

datatype jsval =
    JUndefined
  | JNull
  | JBool bool
  | JNum rat
  | JStr string
  | JOid oid
  | JArr "jsval list"
  | JObj "(string \<times> jsval) list"

fun truthy :: "jsval \<Rightarrow> bool" where
  "truthy JUndefined = False"
| "truthy JNull = False"
| "truthy (JBool b) = b"
| "truthy (JNum n) = (n \<noteq> 0)"
| "truthy (JStr s) = (s \<noteq> [])"
| "truthy (JOid i) = True"
| "truthy (JArr vs) = True"
| "truthy (JObj kvs) = True"

type_synonym jsobj = "(string \<times> jsval) list"

text \<open>Reading a property of an object: \<^verbatim>\<open>undefined\<close> when the object has no such key.\<close>

definition field :: "jsobj \<Rightarrow> string \<Rightarrow> jsval" where
  "field obj k = (case map_of obj k of None \<Rightarrow> JUndefined | Some v \<Rightarrow> v)"

subsection \<open>Documents\<close>

text \<open>
  \<^verbatim>\<open>userSchema\<close> (lines 34-37) and \<^verbatim>\<open>postSchema\<close> (lines 104-110). A path of a document
  holds a \<open>jsval\<close>: the schema's types and its \<^verbatim>\<open>required: true\<close> are enforced when a
  value is set and when the document is saved, not by the type of the record. The
  counters \<^verbatim>\<open>likes\<close> and \<^verbatim>\<open>dislikes\<close> start at the default 0 and are changed by nothing
  but the two reaction routes, so they are natural numbers that a double holds. The
  index that \<^verbatim>\<open>unique: true\<close> asks the database to build on \<^verbatim>\<open>username\<close> is not part of
  the model: what keeps usernames apart here is the lookup the handler itself makes.
\<close>

record user_doc =
  u_id :: oid
  u_username :: jsval
  u_password :: jsval

record post_doc =
  p_id :: oid
  p_title :: jsval
  p_content :: jsval
  p_user :: jsval
  p_likes :: nat
  p_dislikes :: nat

record store =
  users :: "user_doc list"
  posts :: "post_doc list"

datatype error = ValidationError "string list" | CastError | BcryptError | TypeError

subsection \<open>The libraries and the configuration\<close>

text \<open>
  \<^verbatim>\<open>process.env.JWT_SECRET\<close>, taken to be configured, so that \<^verbatim>\<open>jwt.sign\<close> returns a
  token; \<open>jwt_verify\<close> takes the token, the secret and the clock and gives the decoded
  payload or one of the library's errors; \<open>jwt_sign\<close> takes the payload, the secret,
  the \<^verbatim>\<open>expiresIn\<close> option and the clock. \<open>bcrypt_hash\<close> takes the bytes of the password
  that bcrypt reads, the number of rounds and the salt it would draw, and
  \<open>bcrypt_compare\<close> those bytes and a hash. \<open>castString\<close> and \<open>castObjectId\<close> are
  Mongoose's casts of a value that is not yet of the type of the path, \<open>None\<close> when
  the cast throws. \<open>user_query\<close> is what the store answers to
  \<^verbatim>\<open>User.findOne({ username: v })\<close> when \<open>v\<close> is not cast to a string, an object of
  query operators for instance.
\<close>

datatype jwt_error = JsonWebTokenError | TokenExpiredError | NotBeforeError

record env =
  JWT_SECRET :: string
  jwt_verify :: "string \<Rightarrow> string \<Rightarrow> nat \<Rightarrow> jwt_error + jsobj"
  jwt_sign :: "jsobj \<Rightarrow> string \<Rightarrow> string \<Rightarrow> nat \<Rightarrow> string"
  bcrypt_hash :: "string \<Rightarrow> nat \<Rightarrow> string \<Rightarrow> string"
  bcrypt_compare :: "string \<Rightarrow> string \<Rightarrow> bool"
  castString :: "jsval \<Rightarrow> string option"
  castObjectId :: "jsval \<Rightarrow> oid option"
  user_query :: "jsval \<Rightarrow> user_doc list \<Rightarrow> error + user_doc option"

text \<open>\<^verbatim>\<open>bcrypt.hash(password, 10)\<close> and \<^verbatim>\<open>bcrypt.compare(password, hash)\<close>: both throw on
  an argument that is not a string, and both read no more than the first 72 bytes of
  the password.\<close>

definition hash_js :: "env \<Rightarrow> jsval \<Rightarrow> nat \<Rightarrow> string \<Rightarrow> error + string" where
  "hash_js E password rounds salt =
     (case password of
        JStr s \<Rightarrow> Inr (bcrypt_hash E (take 72 s) rounds salt)
      | _ \<Rightarrow> Inl BcryptError)"

definition compare_js :: "env \<Rightarrow> jsval \<Rightarrow> jsval \<Rightarrow> error + bool" where
  "compare_js E password hashed =
     (case password of
        JStr s \<Rightarrow>
          (case hashed of
             JStr h \<Rightarrow> Inr (bcrypt_compare E (take 72 s) h)
           | _ \<Rightarrow> Inl BcryptError)
      | _ \<Rightarrow> Inl BcryptError)"

subsection \<open>Setting and validating the paths of a document\<close>

text \<open>
  Setting a path casts the value to the type of the path: \<^verbatim>\<open>null\<close> and \<^verbatim>\<open>undefined\<close>
  are kept, a value of the type is kept, any other value goes through Mongoose's cast.
  \<open>None\<close> is a cast that throws: the document remembers the path, and saving it fails.
\<close>

definition cast_string :: "env \<Rightarrow> jsval \<Rightarrow> jsval option" where
  "cast_string E v =
     (case v of
        JUndefined \<Rightarrow> Some JUndefined
      | JNull \<Rightarrow> Some JNull
      | JStr s \<Rightarrow> Some (JStr s)
      | _ \<Rightarrow> map_option JStr (castString E v))"

definition cast_oid :: "env \<Rightarrow> jsval \<Rightarrow> jsval option" where
  "cast_oid E v =
     (case v of
        JUndefined \<Rightarrow> Some JUndefined
      | JNull \<Rightarrow> Some JNull
      | JOid i \<Rightarrow> Some (JOid i)
      | _ \<Rightarrow> map_option JOid (castObjectId E v))"

definition held :: "jsval option \<Rightarrow> jsval" where
  "held c = (case c of None \<Rightarrow> JUndefined | Some v \<Rightarrow> v)"

definition cast_errors :: "(string \<times> jsval option) list \<Rightarrow> string list" where
  "cast_errors ps = map fst (filter (\<lambda>(path, c). c = None) ps)"

text \<open>\<^verbatim>\<open>new User({username, password})\<close> and \<^verbatim>\<open>new Post({title, content, user})\<close>: the
  \<^verbatim>\<open>_id\<close> is the one the driver generates, an input here; the counters take the
  schema's default. A document in memory is the record with the paths whose cast
  threw.\<close>

definition new_User :: "env \<Rightarrow> oid \<Rightarrow> jsval \<Rightarrow> jsval \<Rightarrow> user_doc \<times> string list" where
  "new_User E new_id username password =
     (\<lparr>u_id = new_id, u_username = held (cast_string E username),
       u_password = held (cast_string E password)\<rparr>,
      cast_errors [(''username'', cast_string E username), (''password'', cast_string E password)])"

definition new_Post :: "env \<Rightarrow> oid \<Rightarrow> jsval \<Rightarrow> jsval \<Rightarrow> jsval \<Rightarrow> post_doc \<times> string list" where
  "new_Post E new_id title content user =
     (\<lparr>p_id = new_id, p_title = held (cast_string E title),
       p_content = held (cast_string E content), p_user = held (cast_oid E user),
       p_likes = 0, p_dislikes = 0\<rparr>,
      cast_errors [(''title'', cast_string E title), (''content'', cast_string E content),
                   (''user'', cast_oid E user)])"

text \<open>\<^verbatim>\<open>post.title = title; post.content = content\<close> on a document that was loaded: a
  value that is not cast leaves the path as it was.\<close>

definition set_title :: "env \<Rightarrow> jsval \<Rightarrow> post_doc \<times> string list \<Rightarrow> post_doc \<times> string list" where
  "set_title E title d =
     (case cast_string E title of
        None \<Rightarrow> (fst d, snd d @ [''title''])
      | Some v \<Rightarrow> ((fst d)\<lparr>p_title := v\<rparr>, snd d))"

definition set_content :: "env \<Rightarrow> jsval \<Rightarrow> post_doc \<times> string list \<Rightarrow> post_doc \<times> string list" where
  "set_content E content d =
     (case cast_string E content of
        None \<Rightarrow> (fst d, snd d @ [''content''])
      | Some v \<Rightarrow> ((fst d)\<lparr>p_content := v\<rparr>, snd d))"

text \<open>
  Mongoose's \<^verbatim>\<open>required\<close> validator: on a path of type String the value must be a
  string of positive length, on a path of type ObjectId it must be an id. Validation
  fails on the paths whose cast threw and on the required paths that do not pass; the
  error names each failing path once.
\<close>

definition required_string :: "jsval \<Rightarrow> bool" where
  "required_string v = (case v of JStr s \<Rightarrow> s \<noteq> [] | _ \<Rightarrow> False)"

definition required_oid :: "jsval \<Rightarrow> bool" where
  "required_oid v = (case v of JOid i \<Rightarrow> True | _ \<Rightarrow> False)"

definition failing_paths :: "(string \<times> bool) list \<Rightarrow> string list" where
  "failing_paths ps = map fst (filter (\<lambda>(path, ok). \<not> ok) ps)"

definition User_validate :: "user_doc \<times> string list \<Rightarrow> string list" where
  "User_validate d =
     remdups (snd d @ failing_paths [(''username'', required_string (u_username (fst d))),
                                     (''password'', required_string (u_password (fst d)))])"

definition Post_validate :: "post_doc \<times> string list \<Rightarrow> string list" where
  "Post_validate d =
     remdups (snd d @ failing_paths [(''title'', required_string (p_title (fst d))),
                                     (''content'', required_string (p_content (fst d))),
                                     (''user'', required_oid (p_user (fst d)))])"

subsection \<open>The store\<close>

text \<open>
  \<^verbatim>\<open>User.findOne({ username })\<close>: a string, or a value that Mongoose casts to a string,
  is looked up by equality, and the first match in insertion order is the answer; for
  any other value the answer is the store's.
\<close>

definition query_string :: "env \<Rightarrow> jsval \<Rightarrow> string option" where
  "query_string E v =
     (case v of
        JUndefined \<Rightarrow> None
      | JNull \<Rightarrow> None
      | JStr s \<Rightarrow> Some s
      | _ \<Rightarrow> castString E v)"

definition User_findOne :: "env \<Rightarrow> store \<Rightarrow> jsval \<Rightarrow> error + user_doc option" where
  "User_findOne E st username =
     (case query_string E username of
        Some s \<Rightarrow> Inr (find (\<lambda>u. u_username u = JStr s) (users st))
      | None \<Rightarrow> user_query E username (users st))"

text \<open>\<^verbatim>\<open>Post.findById(postId)\<close> casts the string of the route to an ObjectId and throws
  when it is none.\<close>

definition Post_findById :: "env \<Rightarrow> store \<Rightarrow> string \<Rightarrow> error + post_doc option" where
  "Post_findById E st postId =
     (case castObjectId E (JStr postId) of
        None \<Rightarrow> Inl CastError
      | Some i \<Rightarrow> Inr (find (\<lambda>p. p_id p = i) (posts st)))"

text \<open>\<^verbatim>\<open>user.save()\<close> of a new document: validation, then an insert.\<close>

definition User_save :: "store \<Rightarrow> user_doc \<times> string list \<Rightarrow> error + store" where
  "User_save st d =
     (if User_validate d \<noteq> [] then Inl (ValidationError (User_validate d))
      else Inr (st\<lparr>users := users st @ [fst d]\<rparr>))"

text \<open>\<^verbatim>\<open>post.save()\<close>: validation, then an insert for a new document and an update of the
  stored document of the same \<^verbatim>\<open>_id\<close> for one that was loaded.\<close>

fun updateOne :: "post_doc \<Rightarrow> post_doc list \<Rightarrow> post_doc list" where
  "updateOne p [] = []"
| "updateOne p (q # qs) = (if p_id q = p_id p then p # qs else q # updateOne p qs)"

fun deleteOne :: "oid \<Rightarrow> post_doc list \<Rightarrow> post_doc list" where
  "deleteOne i [] = []"
| "deleteOne i (q # qs) = (if p_id q = i then qs else q # deleteOne i qs)"

definition Post_save :: "store \<Rightarrow> bool \<Rightarrow> post_doc \<times> string list \<Rightarrow> error + store" where
  "Post_save st isNew d =
     (if Post_validate d \<noteq> [] then Inl (ValidationError (Post_validate d))
      else if isNew then Inr (st\<lparr>posts := posts st @ [fst d]\<rparr>)
      else Inr (st\<lparr>posts := updateOne (fst d) (posts st)\<rparr>))"

definition Post_findByIdAndDelete :: "env \<Rightarrow> store \<Rightarrow> string \<Rightarrow> error + store" where
  "Post_findByIdAndDelete E st postId =
     (case castObjectId E (JStr postId) of
        None \<Rightarrow> Inl CastError
      | Some i \<Rightarrow> Inr (st\<lparr>posts := deleteOne i (posts st)\<rparr>))"

subsection \<open>Requests and responses\<close>

record populated_user =
  pop_id :: oid
  pop_username :: jsval

record post_json =
  j_id :: oid
  j_title :: jsval
  j_content :: jsval
  j_user :: "populated_user option"
  j_likes :: nat
  j_dislikes :: nat

datatype body =
    Text string
  | TokenBody string
  | ErrorMessage error
  | Json "post_json list"

datatype response = Response nat body

fun status :: "response \<Rightarrow> nat" where
  "status (Response code b) = code"

record request =
  authorization :: "string option"
  params_id :: string
  req_body :: jsobj

subsection \<open>\<^verbatim>\<open>authenticateToken\<close> (lines 41-52)\<close>

text \<open>\<^verbatim>\<open>String.prototype.split\<close> with a separator of one character: the pieces between
  the occurrences of the separator, empty pieces included, and at least one piece.\<close>

fun split :: "char \<Rightarrow> string \<Rightarrow> string list" where
  "split c [] = [[]]"
| "split c (x # xs) =
     (if x = c then [] # split c xs
      else (case split c xs of [] \<Rightarrow> [[x]] | w # ws \<Rightarrow> (x # w) # ws))"

text \<open>Indexing a JavaScript array: \<^verbatim>\<open>undefined\<close> past the end.\<close>

definition element :: "'a list \<Rightarrow> nat \<Rightarrow> 'a option" where
  "element arr n = (if n < length arr then Some (arr ! n) else None)"

text \<open>\<^verbatim>\<open>authHeader && authHeader.split(' ')[1]\<close>: an absent header stays absent, an empty
  header (falsy) is the result itself, otherwise the second piece.\<close>

definition token_of :: "string option \<Rightarrow> string option" where
  "token_of authHeader =
     (case authHeader of
        None \<Rightarrow> None
      | Some h \<Rightarrow> if h = [] then Some [] else element (split (CHR '' '') h) 1)"

text \<open>The middleware answers itself (\<open>Inl\<close>) or calls \<^verbatim>\<open>next()\<close> with \<^verbatim>\<open>req.user\<close> set to
  the decoded payload (\<open>Inr\<close>).\<close>

definition authenticateToken :: "env \<Rightarrow> nat \<Rightarrow> request \<Rightarrow> response + jsobj" where
  "authenticateToken E now req =
     (case token_of (authorization req) of
        None \<Rightarrow> Inl (Response 401 (Text ''Unauthorized''))
      | Some token \<Rightarrow>
          if token = [] then Inl (Response 401 (Text ''Unauthorized''))
          else (case jwt_verify E token (JWT_SECRET E) now of
                  Inl err \<Rightarrow> Inl (Response 403 (Text ''Forbidden''))
                | Inr user \<Rightarrow> Inr user))"

subsection \<open>\<^verbatim>\<open>POST /signup\<close> (lines 55-77) and \<^verbatim>\<open>POST /login\<close> (lines 79-101)\<close>

definition signup :: "env \<Rightarrow> store \<Rightarrow> oid \<Rightarrow> string \<Rightarrow> request \<Rightarrow> response \<times> store" where
  "signup E st new_id salt req =
     (let username = field (req_body req) ''username'';
          password = field (req_body req) ''password''
      in if \<not> truthy username \<or> \<not> truthy password
         then (Response 400 (Text ''Username and password are required''), st)
         else (case User_findOne E st username of
                 Inl e \<Rightarrow> (Response 500 (ErrorMessage e), st)
               | Inr (Some existingUser) \<Rightarrow> (Response 409 (Text ''Username already exists''), st)
               | Inr None \<Rightarrow>
                   (case hash_js E password 10 salt of
                      Inl e \<Rightarrow> (Response 500 (ErrorMessage e), st)
                    | Inr hashedPassword \<Rightarrow>
                        (case User_save st (new_User E new_id username (JStr hashedPassword)) of
                           Inl e \<Rightarrow> (Response 500 (ErrorMessage e), st)
                         | Inr st' \<Rightarrow> (Response 201 (Text ''User created successfully''), st')))))"

text \<open>The payload of the token is \<^verbatim>\<open>{ userId: user._id, username: user.username }\<close>; the
  library prints the id as its hexadecimal digits when it encodes the payload.\<close>

definition login :: "env \<Rightarrow> store \<Rightarrow> nat \<Rightarrow> request \<Rightarrow> response" where
  "login E st now req =
     (let username = field (req_body req) ''username'';
          password = field (req_body req) ''password''
      in if \<not> truthy username \<or> \<not> truthy password
         then Response 400 (Text ''Username and password are required'')
         else (case User_findOne E st username of
                 Inl e \<Rightarrow> Response 500 (ErrorMessage e)
               | Inr None \<Rightarrow> Response 404 (Text ''User not found'')
               | Inr (Some user) \<Rightarrow>
                   (case compare_js E password (u_password user) of
                      Inl e \<Rightarrow> Response 500 (ErrorMessage e)
                    | Inr validPassword \<Rightarrow>
                        if \<not> validPassword then Response 401 (Text ''Invalid password'')
                        else Response 200 (TokenBody
                               (jwt_sign E
                                  [(''userId'', JOid (u_id user)), (''username'', u_username user)]
                                  (JWT_SECRET E) ''1h'' now)))))"

subsection \<open>The post routes (lines 114-216)\<close>

text \<open>\<^verbatim>\<open>POST /posts\<close>, behind \<^verbatim>\<open>authenticateToken\<close>.\<close>

definition create_post :: "env \<Rightarrow> store \<Rightarrow> nat \<Rightarrow> oid \<Rightarrow> request \<Rightarrow> response \<times> store" where
  "create_post E st now new_id req =
     (case authenticateToken E now req of
        Inl res \<Rightarrow> (res, st)
      | Inr user \<Rightarrow>
          (let title = field (req_body req) ''title'';
               content = field (req_body req) ''content'';
               post = new_Post E new_id title content (field user ''userId'')
           in case Post_save st True post of
                Inl e \<Rightarrow> (Response 500 (ErrorMessage e), st)
              | Inr st' \<Rightarrow> (Response 201 (Text ''Post created successfully''), st')))"

text \<open>\<^verbatim>\<open>GET /posts\<close>: \<^verbatim>\<open>Post.find().populate('user', 'username')\<close> replaces the owner's id
  by the \<^verbatim>\<open>_id\<close> and \<^verbatim>\<open>username\<close> of the user it names, or by \<^verbatim>\<open>null\<close> when there is
  none.\<close>

definition populate :: "store \<Rightarrow> post_doc \<Rightarrow> post_json" where
  "populate st p =
     \<lparr>j_id = p_id p, j_title = p_title p, j_content = p_content p,
      j_user = (case find (\<lambda>u. JOid (u_id u) = p_user p) (users st) of
                  None \<Rightarrow> None
                | Some u \<Rightarrow> Some \<lparr>pop_id = u_id u, pop_username = u_username u\<rparr>),
      j_likes = p_likes p, j_dislikes = p_dislikes p\<rparr>"

definition list_posts :: "store \<Rightarrow> response" where
  "list_posts st = Response 200 (Json (map (populate st) (posts st)))"

text \<open>\<^verbatim>\<open>post.user.toString() !== req.user.userId\<close>: a strict comparison of the printed
  owner id with the token's \<^verbatim>\<open>userId\<close>; reading \<^verbatim>\<open>toString\<close> from a path that holds no
  id throws.\<close>

definition not_owner :: "post_doc \<Rightarrow> jsobj \<Rightarrow> error + bool" where
  "not_owner post user =
     (case p_user post of
        JOid owner \<Rightarrow> Inr (JStr owner \<noteq> field user ''userId'')
      | _ \<Rightarrow> Inl TypeError)"

text \<open>\<^verbatim>\<open>DELETE /posts/:id\<close>, behind \<^verbatim>\<open>authenticateToken\<close>.\<close>

definition delete_post :: "env \<Rightarrow> store \<Rightarrow> nat \<Rightarrow> request \<Rightarrow> response \<times> store" where
  "delete_post E st now req =
     (case authenticateToken E now req of
        Inl res \<Rightarrow> (res, st)
      | Inr user \<Rightarrow>
          (let postId = params_id req
           in case Post_findById E st postId of
                Inl e \<Rightarrow> (Response 500 (ErrorMessage e), st)
              | Inr None \<Rightarrow> (Response 404 (Text ''Post not found''), st)
              | Inr (Some post) \<Rightarrow>
                  (case not_owner post user of
                     Inl e \<Rightarrow> (Response 500 (ErrorMessage e), st)
                   | Inr differs \<Rightarrow>
                       if differs then (Response 403 (Text ''Unauthorized action''), st)
                       else (case Post_findByIdAndDelete E st postId of
                               Inl e \<Rightarrow> (Response 500 (ErrorMessage e), st)
                             | Inr st' \<Rightarrow> (Response 200 (Text ''Post deleted successfully''), st')))))"

text \<open>\<^verbatim>\<open>PUT /posts/:id\<close>, behind \<^verbatim>\<open>authenticateToken\<close>.\<close>

definition update_post :: "env \<Rightarrow> store \<Rightarrow> nat \<Rightarrow> request \<Rightarrow> response \<times> store" where
  "update_post E st now req =
     (case authenticateToken E now req of
        Inl res \<Rightarrow> (res, st)
      | Inr user \<Rightarrow>
          (let postId = params_id req;
               title = field (req_body req) ''title'';
               content = field (req_body req) ''content''
           in case Post_findById E st postId of
                Inl e \<Rightarrow> (Response 500 (ErrorMessage e), st)
              | Inr None \<Rightarrow> (Response 404 (Text ''Post not found''), st)
              | Inr (Some post) \<Rightarrow>
                  (case not_owner post user of
                     Inl e \<Rightarrow> (Response 500 (ErrorMessage e), st)
                   | Inr differs \<Rightarrow>
                       if differs then (Response 403 (Text ''Unauthorized action''), st)
                       else (case Post_save st False
                                    (set_content E content (set_title E title (post, []))) of
                               Inl e \<Rightarrow> (Response 500 (ErrorMessage e), st)
                             | Inr st' \<Rightarrow> (Response 200 (Text ''Post updated successfully''), st')))))"

text \<open>
  \<^verbatim>\<open>POST /posts/:id/like\<close> and \<^verbatim>\<open>POST /posts/:id/dislike\<close>, open to anyone.
  \<^verbatim>\<open>(post.likes || 0) + 1\<close>: a counter of zero is falsy and is replaced by zero, and the
  sum is the double nearest to it, the one with the even mantissa when two are as
  near. Up to \<open>2 ^ 53\<close> every natural number is a double; from there to \<open>2 ^ 54\<close> the
  even ones are, and above that the next double is more than two away.
\<close>

definition plus_one :: "nat \<Rightarrow> nat" where
  "plus_one n =
     (if n < 2 ^ 53 then n + 1
      else if n < 2 ^ 54 \<and> odd (n div 2) then n + 2
      else n)"

definition like_post :: "env \<Rightarrow> store \<Rightarrow> request \<Rightarrow> response \<times> store" where
  "like_post E st req =
     (let postId = params_id req
      in case Post_findById E st postId of
           Inl e \<Rightarrow> (Response 500 (ErrorMessage e), st)
         | Inr None \<Rightarrow> (Response 404 (Text ''Post not found''), st)
         | Inr (Some post) \<Rightarrow>
             (case Post_save st False
                     (post\<lparr>p_likes := plus_one (if p_likes post \<noteq> 0 then p_likes post else 0)\<rparr>, []) of
                Inl e \<Rightarrow> (Response 500 (ErrorMessage e), st)
              | Inr st' \<Rightarrow> (Response 200 (Text ''Like added successfully''), st')))"

definition dislike_post :: "env \<Rightarrow> store \<Rightarrow> request \<Rightarrow> response \<times> store" where
  "dislike_post E st req =
     (let postId = params_id req
      in case Post_findById E st postId of
           Inl e \<Rightarrow> (Response 500 (ErrorMessage e), st)
         | Inr None \<Rightarrow> (Response 404 (Text ''Post not found''), st)
         | Inr (Some post) \<Rightarrow>
             (case Post_save st False
                     (post\<lparr>p_dislikes := plus_one (if p_dislikes post \<noteq> 0 then p_dislikes post else 0)\<rparr>, []) of
                Inl e \<Rightarrow> (Response 500 (ErrorMessage e), st)
              | Inr st' \<Rightarrow> (Response 200 (Text ''Dislike added successfully''), st')))"

subsection \<open>The server as a transition system\<close>

text \<open>
  One call of a route, with what the call draws from outside: the clock, and for a
  route that creates a document the identifier (and for \<^verbatim>\<open>/signup\<close> the salt) it is
  given. \<^verbatim>\<open>/screenshot\<close> and \<^verbatim>\<open>/send-email\<close> touch neither model and are left out.
  \<open>run\<close> serves a list of calls one after the other.
\<close>

datatype call =
    Signup oid string request
  | Login request
  | CreatePost oid request
  | ListPosts
  | DeletePost request
  | UpdatePost request
  | Like request
  | Dislike request

fun handle :: "env \<Rightarrow> store \<Rightarrow> nat \<times> call \<Rightarrow> response \<times> store" where
  "handle E st (now, Signup new_id salt req) = signup E st new_id salt req"
| "handle E st (now, Login req) = (login E st now req, st)"
| "handle E st (now, CreatePost new_id req) = create_post E st now new_id req"
| "handle E st (now, ListPosts) = (list_posts st, st)"
| "handle E st (now, DeletePost req) = delete_post E st now req"
| "handle E st (now, UpdatePost req) = update_post E st now req"
| "handle E st (now, Like req) = like_post E st req"
| "handle E st (now, Dislike req) = dislike_post E st req"

fun run :: "env \<Rightarrow> store \<Rightarrow> (nat \<times> call) list \<Rightarrow> response list \<times> store" where
  "run E st [] = ([], st)"
| "run E st (c # cs) =
     (case handle E st c of
        (res, st') \<Rightarrow> (case run E st' cs of (rs, st'') \<Rightarrow> (res # rs, st'')))"


subsection \<open>Predicates of the specification\<close>

text \<open>The empty database, the persisted-state invariants the specification names, and
  what \<^verbatim>\<open>GET /posts\<close> may depend on of a user.\<close>

definition init_store :: store where
  "init_store = \<lparr>users = [], posts = []\<rparr>"

definition nonempty_string :: "jsval \<Rightarrow> bool" where
  "nonempty_string v = (case v of JStr s \<Rightarrow> s \<noteq> [] | _ \<Rightarrow> False)"

definition absent_or_empty :: "jsval \<Rightarrow> bool" where
  "absent_or_empty v = (v = JUndefined \<or> v = JNull \<or> v = JStr [])"

text \<open>A value that, set on a path of type String, leaves a non-empty string there.\<close>

definition gives_text :: "env \<Rightarrow> jsval \<Rightarrow> bool" where
  "gives_text E v = (case cast_string E v of Some w \<Rightarrow> nonempty_string w | None \<Rightarrow> False)"

definition posts_ok :: "store \<Rightarrow> bool" where
  "posts_ok st =
     list_all (\<lambda>p. nonempty_string (p_title p) \<and> nonempty_string (p_content p)) (posts st)"



definition usernames :: "store \<Rightarrow> jsval list" where
  "usernames st = map u_username (users st)"

definition public_users :: "store \<Rightarrow> (oid \<times> jsval) list" where
  "public_users st = map (\<lambda>u. (u_id u, u_username u)) (users st)"

text \<open>A call of \<^verbatim>\<open>/signup\<close> for a given username that was answered 201.\<close>

fun created_as :: "jsval \<Rightarrow> (nat \<times> call) \<times> response \<Rightarrow> bool" where
  "created_as username ((now, Signup new_id salt req), res) =
     (field (req_body req) ''username'' = username \<and> status res = 201)"
| "created_as username (c, res) = False"

subsection \<open>A concrete environment\<close>

text \<open>
  An instance of the library parameters on which the handlers can be evaluated. A
  token is the user id, the username, the key and the expiry in unary, joined by
  \<^verbatim>\<open>|\<close>; a hash is the bytes read behind a marker. An ObjectId is cast from a string
  of 24 hexadecimal digits, in lower case; a string is cast from a boolean and from a
  natural number below \<open>10 ^ 21\<close>, as \<^verbatim>\<open>String\<close> prints them in decimal digits (the
  examples set no other number on a path of type String); the one query operator is
  \<^verbatim>\<open>$ne\<close>.
\<close>

definition demo_sign :: "jsobj \<Rightarrow> string \<Rightarrow> string \<Rightarrow> nat \<Rightarrow> string" where
  "demo_sign payload secret expiresIn now =
     (case field payload ''userId'' of JOid i \<Rightarrow> i | JStr s \<Rightarrow> s | _ \<Rightarrow> []) @ ''|'' @
     (case field payload ''username'' of JStr s \<Rightarrow> s | _ \<Rightarrow> []) @ ''|'' @
     secret @ ''|'' @
     replicate (now + (if expiresIn = ''1h'' then 3600 else 0)) (CHR ''x'')"

definition demo_verify :: "string \<Rightarrow> string \<Rightarrow> nat \<Rightarrow> jwt_error + jsobj" where
  "demo_verify token secret now =
     (case split (CHR ''|'') token of
        [uid, name, key, expiry] \<Rightarrow>
          if key \<noteq> secret then Inl JsonWebTokenError
          else if length expiry \<le> now then Inl TokenExpiredError
          else Inr [(''userId'', JStr uid), (''username'', JStr name)]
      | _ \<Rightarrow> Inl JsonWebTokenError)"

definition hex_digit :: "char \<Rightarrow> bool" where
  "hex_digit c = (c \<in> set ''0123456789abcdefABCDEF'')"

definition lower_case :: "char \<Rightarrow> char" where
  "lower_case c =
     (case map_of (zip ''ABCDEF'' ''abcdef'') c of None \<Rightarrow> c | Some d \<Rightarrow> d)"

definition demo_castObjectId :: "jsval \<Rightarrow> oid option" where
  "demo_castObjectId v =
     (case v of
        JStr s \<Rightarrow> if length s = 24 \<and> list_all hex_digit s then Some (map lower_case s) else None
      | _ \<Rightarrow> None)"

function decimal :: "nat \<Rightarrow> string" where
  "decimal n =
     (if n < 10 then [''0123456789'' ! n]
      else decimal (n div 10) @ [''0123456789'' ! (n mod 10)])"
  by pat_completeness auto
termination
  by (relation "measure (\<lambda>n. n)") auto

definition demo_castString :: "jsval \<Rightarrow> string option" where
  "demo_castString v =
     (case v of
        JBool b \<Rightarrow> Some (if b then ''true'' else ''false'')
      | JNum q \<Rightarrow>
          if 0 \<le> q \<and> q < 10 ^ 21 \<and> q = of_int \<lfloor>q\<rfloor> then Some (decimal (nat \<lfloor>q\<rfloor>))
          else None
      | _ \<Rightarrow> None)"

definition demo_user_query :: "jsval \<Rightarrow> user_doc list \<Rightarrow> error + user_doc option" where
  "demo_user_query v us =
     (case v of
        JObj [(operator, JStr s)] \<Rightarrow>
          if operator = ''$ne'' then Inr (find (\<lambda>u. u_username u \<noteq> JStr s) us)
          else Inl CastError
      | _ \<Rightarrow> Inl CastError)"

definition demo_env :: env where
  "demo_env =
     \<lparr>JWT_SECRET = ''k'',
      jwt_verify = demo_verify,
      jwt_sign = demo_sign,
      bcrypt_hash = (\<lambda>password rounds salt. CHR ''#'' # password),
      bcrypt_compare = (\<lambda>password hashed. hashed = CHR ''#'' # password),
      castString = demo_castString,
      castObjectId = demo_castObjectId,
      user_query = demo_user_query\<rparr>"

definition json_request :: "string option \<Rightarrow> string \<Rightarrow> jsobj \<Rightarrow> request" where
  "json_request authHeader postId obj =
     \<lparr>authorization = authHeader, params_id = postId, req_body = obj\<rparr>"

text \<open>Two users, two posts, and the tokens of the two users that are good until the
  clock shows 9.\<close>

definition ann_id :: oid where
  "ann_id = ''64b0000000000000000000a1''"

definition bob_id :: oid where
  "bob_id = ''64b0000000000000000000b2''"

definition post1_id :: oid where
  "post1_id = ''64b0000000000000000000c1''"

definition post2_id :: oid where
  "post2_id = ''64b0000000000000000000c2''"

definition ann_bearer :: string where
  "ann_bearer = ''Bearer 64b0000000000000000000a1|ann|k|xxxxxxxxx''"

definition bob_bearer :: string where
  "bob_bearer = ''Bearer 64b0000000000000000000b2|bob|k|xxxxxxxxx''"

section \<open>Token verification\<close>

lemma split_no_sep: "c \<notin> set xs \<Longrightarrow> split c xs = [xs]"
  by (induction xs) auto

lemma split_first: "c \<notin> set a \<Longrightarrow> split c (a @ c # b) = a # split c b"
  by (induction a) auto

lemma token_of_two_parts:
  assumes "CHR '' '' \<notin> set scheme" and "CHR '' '' \<notin> set token"
  shows "token_of (Some (scheme @ '' '' @ token)) = Some token"
  using assms by (simp add: token_of_def element_def split_first split_no_sep)

text \<open>
  C2. The middleware answers 401 exactly when the request presents no token: the token
  it extracts is absent or empty, as it is when there is no header or the header is a
  single piece without a space. With a token it answers 403
  whenever \<^verbatim>\<open>jwt.verify\<close> reports an error, whichever it is: the library's
  \<open>JsonWebTokenError\<close> for a malformed token or a signature that does not match the
  configured secret, \<open>TokenExpiredError\<close> for an expired one; so a token the library
  finds expired is never let through. Otherwise the handler runs with the decoded
  payload as \<^verbatim>\<open>req.user\<close>.
\<close>

theorem authenticateToken_outcomes:
  "(authenticateToken E now req = Inl (Response 401 (Text ''Unauthorized'')) \<longleftrightarrow>
      (token_of (authorization req) = None \<or> token_of (authorization req) = Some []))
   \<and> (authorization req = None \<longrightarrow>
        authenticateToken E now req = Inl (Response 401 (Text ''Unauthorized'')))
   \<and> (\<forall>h. authorization req = Some h \<and> CHR '' '' \<notin> set h \<longrightarrow>
        authenticateToken E now req = Inl (Response 401 (Text ''Unauthorized'')))
   \<and> (\<forall>token. token_of (authorization req) = Some token \<and> token \<noteq> [] \<longrightarrow>
        (\<forall>err. jwt_verify E token (JWT_SECRET E) now = Inl err \<longrightarrow>
           authenticateToken E now req = Inl (Response 403 (Text ''Forbidden'')))
      \<and> (\<forall>user. jwt_verify E token (JWT_SECRET E) now = Inr user \<longrightarrow>
           authenticateToken E now req = Inr user))"
proof (intro conjI allI impI)
  show "authenticateToken E now req = Inl (Response 401 (Text ''Unauthorized'')) \<longleftrightarrow>
      (token_of (authorization req) = None \<or> token_of (authorization req) = Some [])"
    by (auto simp: authenticateToken_def split: option.splits sum.splits)
next
  fix h
  assume "authorization req = Some h \<and> CHR '' '' \<notin> set h"
  then have "token_of (authorization req) = None \<or> token_of (authorization req) = Some []"
    by (simp add: token_of_def element_def split_no_sep)
  then show "authenticateToken E now req = Inl (Response 401 (Text ''Unauthorized''))"
    by (auto simp: authenticateToken_def)
next
  assume "authorization req = None"
  then show "authenticateToken E now req = Inl (Response 401 (Text ''Unauthorized''))"
    by (simp add: authenticateToken_def token_of_def)
next
  fix token err
  assume "token_of (authorization req) = Some token \<and> token \<noteq> []"
    and "jwt_verify E token (JWT_SECRET E) now = Inl err"
  then show "authenticateToken E now req = Inl (Response 403 (Text ''Forbidden''))"
    by (simp add: authenticateToken_def)
next
  fix token user
  assume "token_of (authorization req) = Some token \<and> token \<noteq> []"
    and "jwt_verify E token (JWT_SECRET E) now = Inr user"
  then show "authenticateToken E now req = Inr user"
    by (simp add: authenticateToken_def)
qed

text \<open>The six kinds of request at the clock 5: no header, a scheme without a token, an
  expired token, a token signed with another key, a malformed token, a good token.\<close>

theorem authenticateToken_outcomes_witness:
  "authenticateToken demo_env 5 (json_request None [] []) = Inl (Response 401 (Text ''Unauthorized''))
   \<and> authenticateToken demo_env 5 (json_request (Some ''Bearer'') [] []) = Inl (Response 401 (Text ''Unauthorized''))
   \<and> authenticateToken demo_env 5 (json_request (Some ''Bearer 1|ann|k|xxx'') [] []) = Inl (Response 403 (Text ''Forbidden''))
   \<and> authenticateToken demo_env 5 (json_request (Some ''Bearer 1|ann|other|xxxxxxxxx'') [] []) = Inl (Response 403 (Text ''Forbidden''))
   \<and> authenticateToken demo_env 5 (json_request (Some ''Bearer garbage'') [] []) = Inl (Response 403 (Text ''Forbidden''))
   \<and> authenticateToken demo_env 5 (json_request (Some ''Bearer 1|ann|k|xxxxxxxxx'') [] []) =
        Inr [(''userId'', JStr ''1''), (''username'', JStr ''ann'')]"
proof -
  have t0: "token_of (authorization (json_request (Some ''Bearer'') [] [])) = None"
    by (simp add: token_of_def element_def json_request_def)
  have t1: "token_of (authorization (json_request (Some ''Bearer 1|ann|k|xxx'') [] [])) = Some ''1|ann|k|xxx'' \<and> ''1|ann|k|xxx'' \<noteq> []"
    by (simp add: token_of_def element_def json_request_def)
  have v1: "jwt_verify demo_env ''1|ann|k|xxx'' (JWT_SECRET demo_env) 5 = Inl TokenExpiredError"
    by (simp add: demo_env_def demo_verify_def)
  have t2: "token_of (authorization (json_request (Some ''Bearer 1|ann|other|xxxxxxxxx'') [] [])) = Some ''1|ann|other|xxxxxxxxx'' \<and> ''1|ann|other|xxxxxxxxx'' \<noteq> []"
    by (simp add: token_of_def element_def json_request_def)
  have v2: "jwt_verify demo_env ''1|ann|other|xxxxxxxxx'' (JWT_SECRET demo_env) 5 = Inl JsonWebTokenError"
    by (simp add: demo_env_def demo_verify_def)
  have t3: "token_of (authorization (json_request (Some ''Bearer garbage'') [] [])) = Some ''garbage'' \<and> ''garbage'' \<noteq> []"
    by (simp add: token_of_def element_def json_request_def)
  have v3: "jwt_verify demo_env ''garbage'' (JWT_SECRET demo_env) 5 = Inl JsonWebTokenError"
    by (simp add: demo_env_def demo_verify_def)
  have t4: "token_of (authorization (json_request (Some ''Bearer 1|ann|k|xxxxxxxxx'') [] [])) = Some ''1|ann|k|xxxxxxxxx'' \<and> ''1|ann|k|xxxxxxxxx'' \<noteq> []"
    by (simp add: token_of_def element_def json_request_def)
  have v4: "jwt_verify demo_env ''1|ann|k|xxxxxxxxx'' (JWT_SECRET demo_env) 5 = Inr [(''userId'', JStr ''1''), (''username'', JStr ''ann'')]"
    by (simp add: demo_env_def demo_verify_def)
  have h0: "authorization (json_request None [] []) = None" by (simp add: json_request_def)
  note A = authenticateToken_outcomes [of demo_env 5]
  from A [of "json_request None [] []"] h0
  have r0: "authenticateToken demo_env 5 (json_request None [] []) = Inl (Response 401 (Text ''Unauthorized''))"
    by blast
  have t0': "authorization (json_request (Some ''Bearer'') [] []) = Some ''Bearer'' \<and>
             CHR '' '' \<notin> set ''Bearer''"
    by (simp add: json_request_def)
  from A [of "json_request (Some ''Bearer'') [] []"] t0'
  have r0': "authenticateToken demo_env 5 (json_request (Some ''Bearer'') [] []) = Inl (Response 401 (Text ''Unauthorized''))"
    by blast
  from A [of "json_request (Some ''Bearer 1|ann|k|xxx'') [] []"] t1 v1
  have r1: "authenticateToken demo_env 5 (json_request (Some ''Bearer 1|ann|k|xxx'') [] []) = Inl (Response 403 (Text ''Forbidden''))"
    by blast
  from A [of "json_request (Some ''Bearer 1|ann|other|xxxxxxxxx'') [] []"] t2 v2
  have r2: "authenticateToken demo_env 5 (json_request (Some ''Bearer 1|ann|other|xxxxxxxxx'') [] []) = Inl (Response 403 (Text ''Forbidden''))"
    by blast
  from A [of "json_request (Some ''Bearer garbage'') [] []"] t3 v3
  have r3: "authenticateToken demo_env 5 (json_request (Some ''Bearer garbage'') [] []) = Inl (Response 403 (Text ''Forbidden''))"
    by blast
  from A [of "json_request (Some ''Bearer 1|ann|k|xxxxxxxxx'') [] []"] t4 v4
  have r4: "authenticateToken demo_env 5 (json_request (Some ''Bearer 1|ann|k|xxxxxxxxx'') [] []) = Inr [(''userId'', JStr ''1''), (''username'', JStr ''ann'')]"
    by blast
  from r0 r0' r1 r2 r3 r4 show ?thesis by blast
qed

text \<open>
  C10. For a header of two pieces separated by one space, the token is the second piece
  whatever the first is: the scheme is never compared with \<^verbatim>\<open>Bearer\<close>, and the
  middleware gives the same result as for \<^verbatim>\<open>Bearer\<close> followed by that token.
\<close>

theorem scheme_not_checked:
  assumes "CHR '' '' \<notin> set scheme" and "CHR '' '' \<notin> set token"
  shows "token_of (Some (scheme @ '' '' @ token)) = Some token \<and>
         authenticateToken E now (req\<lparr>authorization := Some (scheme @ '' '' @ token)\<rparr>) =
         authenticateToken E now (req\<lparr>authorization := Some (''Bearer '' @ token)\<rparr>)"
proof -
  have bearer: "CHR '' '' \<notin> set ''Bearer''" by simp
  have t1: "token_of (Some (scheme @ '' '' @ token)) = Some token"
    using assms by (rule token_of_two_parts)
  have t2: "token_of (Some (''Bearer'' @ '' '' @ token)) = Some token"
    using bearer assms(2) by (rule token_of_two_parts)
  have t2': "token_of (Some (''Bearer '' @ token)) = Some token"
    using t2 by simp
  show ?thesis using t1 t2' by (simp add: authenticateToken_def)
qed

theorem scheme_not_checked_witness:
  "token_of (Some (''Basic'' @ '' '' @ ''1|ann|k|xxx'')) = Some ''1|ann|k|xxx'' \<and>
   authenticateToken demo_env 1 (json_request (Some ''Basic 1|ann|k|xxx'') [] []) =
     Inr [(''userId'', JStr ''1''), (''username'', JStr ''ann'')] \<and>
   authenticateToken demo_env 1 (json_request (Some ''Bearer 1|ann|k|xxx'') [] []) =
     Inr [(''userId'', JStr ''1''), (''username'', JStr ''ann'')]"
proof -
  have a: "CHR '' '' \<notin> set ''Basic''" by simp
  have b: "CHR '' '' \<notin> set ''1|ann|k|xxx''" by simp
  have c: "authenticateToken demo_env 1 (json_request (Some ''Bearer 1|ann|k|xxx'') [] []) =
     Inr [(''userId'', JStr ''1''), (''username'', JStr ''ann'')]"
    by (simp add: authenticateToken_def token_of_def element_def json_request_def demo_env_def demo_verify_def)
  from scheme_not_checked [OF a b, of demo_env 1 "json_request None [] []"] c
  show ?thesis by (simp add: json_request_def)
qed

section \<open>The store operations\<close>

lemma find_updateOne:
  "find (\<lambda>q. p_id q = i) (updateOne p qs) =
     (if i = p_id p then map_option (\<lambda>q. p) (find (\<lambda>q. p_id q = i) qs)
      else find (\<lambda>q. p_id q = i) qs)"
  by (induction qs) auto

lemma ids_updateOne: "map p_id (updateOne p qs) = map p_id qs"
  by (induction qs) auto

lemma list_all_updateOne: "P p \<Longrightarrow> list_all P qs \<Longrightarrow> list_all P (updateOne p qs)"
  by (induction qs) auto

lemma find_deleteOne_other:
  "i \<noteq> j \<Longrightarrow> find (\<lambda>q. p_id q = i) (deleteOne j qs) = find (\<lambda>q. p_id q = i) qs"
  by (induction qs) auto

lemma set_deleteOne: "set (deleteOne j qs) \<subseteq> set qs"
  by (induction qs) auto

lemma find_deleteOne_same:
  "distinct (map p_id qs) \<Longrightarrow> find (\<lambda>q. p_id q = j) (deleteOne j qs) = None"
proof (induction qs)
  case Nil
  then show ?case by simp
next
  case (Cons q qs)
  show ?case
  proof (cases "p_id q = j")
    case True
    with Cons.prems have "j \<notin> p_id ` set qs" by simp
    then have "find (\<lambda>q. p_id q = j) qs = None" by (auto simp: find_None_iff)
    with True show ?thesis by simp
  next
    case False
    with Cons show ?thesis by simp
  qed
qed

lemma list_all_deleteOne: "list_all P qs \<Longrightarrow> list_all P (deleteOne j qs)"
  by (induction qs) auto

lemma find_id: "find (\<lambda>q. p_id q = i) qs = Some p \<Longrightarrow> p_id p = i"
  by (induction qs) (auto split: if_splits)

lemma find_in_set: "find P xs = Some x \<Longrightarrow> x \<in> set xs"
  by (induction xs) (auto split: if_splits)

lemma find_snoc:
  "find P (xs @ [u]) = (case find P xs of Some x \<Rightarrow> Some x | None \<Rightarrow> if P u then Some u else None)"
  by (induction xs) auto

lemma find_snoc_Some: "find P xs = Some x \<Longrightarrow> find P (xs @ ys) = Some x"
  by (induction xs) (auto split: if_splits)

text \<open>A lookup by id that finds a post: the string of the route is cast to the id of
  that post.\<close>

lemma findById_found:
  assumes "Post_findById E st postId = Inr (Some post)"
  shows "castObjectId E (JStr postId) = Some (p_id post) \<and>
         find (\<lambda>p. p_id p = p_id post) (posts st) = Some post"
proof (cases "castObjectId E (JStr postId)")
  case None
  with assms show ?thesis by (simp add: Post_findById_def)
next
  case (Some i)
  with assms have f: "find (\<lambda>p. p_id p = i) (posts st) = Some post"
    by (simp add: Post_findById_def)
  then have "p_id post = i" by (rule find_id)
  with Some f show ?thesis by simp
qed

lemma findById_after_update:
  assumes "Post_findById E st postId = Inr (Some post)" and "p_id post' = p_id post"
  shows "Post_findById E (st\<lparr>posts := updateOne post' (posts st)\<rparr>) postId = Inr (Some post')"
  using findById_found [OF assms(1)] assms(2)
  by (simp add: Post_findById_def find_updateOne)

lemma findById_other_after_update:
  assumes "Post_findById E st postId = Inr (Some post)" and "p_id post' = p_id post"
      and "castObjectId E (JStr other) \<noteq> castObjectId E (JStr postId)"
  shows "Post_findById E (st\<lparr>posts := updateOne post' (posts st)\<rparr>) other = Post_findById E st other"
  using findById_found [OF assms(1)] assms(2,3)
  by (auto simp: Post_findById_def find_updateOne split: option.splits)

lemma User_validate_nil:
  "User_validate d = [] \<longleftrightarrow>
     snd d = [] \<and> required_string (u_username (fst d)) \<and> required_string (u_password (fst d))"
  by (auto simp: User_validate_def failing_paths_def)

lemma Post_validate_nil:
  "Post_validate d = [] \<longleftrightarrow>
     snd d = [] \<and> required_string (p_title (fst d)) \<and> required_string (p_content (fst d)) \<and>
     required_oid (p_user (fst d))"
  by (auto simp: Post_validate_def failing_paths_def)

section \<open>The concrete environment\<close>

lemma demo_ids [simp]:
  "castObjectId demo_env (JStr ann_id) = Some ann_id"
  "castObjectId demo_env (JStr bob_id) = Some bob_id"
  "castObjectId demo_env (JStr post1_id) = Some post1_id"
  "castObjectId demo_env (JStr post2_id) = Some post2_id"
  by (simp_all add: demo_env_def demo_castObjectId_def hex_digit_def lower_case_def
      ann_id_def bob_id_def post1_id_def post2_id_def)

lemma demo_parts [simp]:
  "castString demo_env = demo_castString" "user_query demo_env = demo_user_query"
  "JWT_SECRET demo_env = ''k''" "jwt_sign demo_env = demo_sign"
  "bcrypt_hash demo_env = (\<lambda>password rounds salt. CHR ''#'' # password)"
  "bcrypt_compare demo_env = (\<lambda>password hashed. hashed = CHR ''#'' # password)"
  by (simp_all add: demo_env_def)

lemma demo_ids_differ [simp]:
  "ann_id \<noteq> bob_id" "bob_id \<noteq> ann_id" "post1_id \<noteq> post2_id" "post2_id \<noteq> post1_id"
  by (simp_all add: ann_id_def bob_id_def post1_id_def post2_id_def)

lemma demo_tokens [simp]:
  "token_of (Some ann_bearer) = Some (ann_id @ ''|ann|k|xxxxxxxxx'')"
  "token_of (Some bob_bearer) = Some (bob_id @ ''|bob|k|xxxxxxxxx'')"
  by (simp_all add: token_of_def element_def ann_bearer_def bob_bearer_def ann_id_def bob_id_def)

lemma demo_identities [simp]:
  "jwt_verify demo_env (ann_id @ ''|ann|k|xxxxxxxxx'') ''k'' 5 =
     Inr [(''userId'', JStr ann_id), (''username'', JStr ''ann'')]"
  "jwt_verify demo_env (bob_id @ ''|bob|k|xxxxxxxxx'') ''k'' 5 =
     Inr [(''userId'', JStr bob_id), (''username'', JStr ''bob'')]"
  by (simp_all add: demo_env_def demo_verify_def ann_id_def bob_id_def)

lemma demo_authenticated:
  "authenticateToken demo_env 5 (json_request (Some ann_bearer) postId obj) =
     Inr [(''userId'', JStr ann_id), (''username'', JStr ''ann'')]"
  "authenticateToken demo_env 5 (json_request (Some bob_bearer) postId obj) =
     Inr [(''userId'', JStr bob_id), (''username'', JStr ''bob'')]"
proof -
  have k: "JWT_SECRET demo_env = ''k''" by (simp add: demo_env_def)
  have a: "ann_id @ ''|ann|k|xxxxxxxxx'' \<noteq> []" and b: "bob_id @ ''|bob|k|xxxxxxxxx'' \<noteq> []"
    by simp_all
  show "authenticateToken demo_env 5 (json_request (Some ann_bearer) postId obj) =
     Inr [(''userId'', JStr ann_id), (''username'', JStr ''ann'')]"
    using a by (simp add: authenticateToken_def json_request_def k)
  show "authenticateToken demo_env 5 (json_request (Some bob_bearer) postId obj) =
     Inr [(''userId'', JStr bob_id), (''username'', JStr ''bob'')]"
    using b by (simp add: authenticateToken_def json_request_def k)
qed

lemmas route_defs =
  json_request_def init_store_def field_def new_Post_def new_User_def Post_save_def User_save_def
  Post_validate_def User_validate_def failing_paths_def cast_errors_def held_def
  cast_string_def cast_oid_def required_string_def required_oid_def set_title_def set_content_def
  Post_findById_def User_findOne_def query_string_def Post_findByIdAndDelete_def not_owner_def
  hash_js_def compare_js_def

section \<open>Ownership\<close>

lemma delete_post_authed:
  assumes "authenticateToken E now req = Inr identity"
      and "Post_findById E st (params_id req) = Inr (Some post)"
      and "p_user post = JOid ownerId"
  shows "delete_post E st now req =
           (if field identity ''userId'' \<noteq> JStr ownerId
            then (Response 403 (Text ''Unauthorized action''), st)
            else (Response 200 (Text ''Post deleted successfully''),
                  st\<lparr>posts := deleteOne (p_id post) (posts st)\<rparr>))"
  using assms findById_found [OF assms(2)]
  by (auto simp: delete_post_def not_owner_def Post_findByIdAndDelete_def)

lemma update_post_authed:
  assumes "authenticateToken E now req = Inr identity"
      and "Post_findById E st (params_id req) = Inr (Some post)"
      and "p_user post = JOid ownerId"
  shows "update_post E st now req =
           (if field identity ''userId'' \<noteq> JStr ownerId
            then (Response 403 (Text ''Unauthorized action''), st)
            else (case Post_save st False
                         (set_content E (field (req_body req) ''content'')
                            (set_title E (field (req_body req) ''title'') (post, []))) of
                    Inl e \<Rightarrow> (Response 500 (ErrorMessage e), st)
                  | Inr st' \<Rightarrow> (Response 200 (Text ''Post updated successfully''), st')))"
  using assms by (auto simp: update_post_def not_owner_def)

lemma set_text:
  assumes "nonempty_string title" and "nonempty_string content"
  shows "set_content E content (set_title E title (post, [])) =
           (post\<lparr>p_title := title, p_content := content\<rparr>, [])"
  using assms
  by (auto simp: set_content_def set_title_def cast_string_def nonempty_string_def
      split: jsval.splits)

text \<open>
  C1. For a post that is stored and a request that passed \<^verbatim>\<open>authenticateToken\<close>, both
  \<^verbatim>\<open>DELETE /posts/:id\<close> and \<^verbatim>\<open>PUT /posts/:id\<close> answer 403 and change nothing when the
  token's \<^verbatim>\<open>userId\<close> is not the post's owner id. When it is the owner's, the delete
  answers 200 and leaves the store without that post, and the update answers 200 with
  the store that \<^verbatim>\<open>post.save()\<close> returns whenever that save does not fail (it does not
  fail when the stored post satisfies its schema and the new title and content are
  non-empty strings); it never answers 403. Nothing of the identity but \<^verbatim>\<open>userId\<close>
  enters the decision.
\<close>

theorem owner_only_mutation:
  assumes auth: "authenticateToken E now req = Inr identity"
      and stored: "Post_findById E st (params_id req) = Inr (Some post)"
      and owner: "p_user post = JOid ownerId"
  shows "(field identity ''userId'' \<noteq> JStr ownerId \<longrightarrow>
            delete_post E st now req = (Response 403 (Text ''Unauthorized action''), st) \<and>
            update_post E st now req = (Response 403 (Text ''Unauthorized action''), st))
       \<and> (field identity ''userId'' = JStr ownerId \<longrightarrow>
            delete_post E st now req =
              (Response 200 (Text ''Post deleted successfully''),
               st\<lparr>posts := deleteOne (p_id post) (posts st)\<rparr>)
          \<and> (\<forall>st'. Post_save st False
                        (set_content E (field (req_body req) ''content'')
                           (set_title E (field (req_body req) ''title'') (post, []))) = Inr st' \<longrightarrow>
                 update_post E st now req = (Response 200 (Text ''Post updated successfully''), st'))
          \<and> (Post_validate (post, []) = [] \<and>
              nonempty_string (field (req_body req) ''title'') \<and>
              nonempty_string (field (req_body req) ''content'') \<longrightarrow>
                 update_post E st now req =
                   (Response 200 (Text ''Post updated successfully''),
                    st\<lparr>posts := updateOne
                         (post\<lparr>p_title := field (req_body req) ''title'',
                               p_content := field (req_body req) ''content''\<rparr>) (posts st)\<rparr>))
          \<and> status (fst (update_post E st now req)) \<noteq> 403)"
proof (intro conjI impI allI)
  assume d: "field identity ''userId'' \<noteq> JStr ownerId"
  show "delete_post E st now req = (Response 403 (Text ''Unauthorized action''), st)"
    using delete_post_authed [OF auth stored owner] d by simp
  show "update_post E st now req = (Response 403 (Text ''Unauthorized action''), st)"
    using update_post_authed [OF auth stored owner] d by simp
next
  assume e: "field identity ''userId'' = JStr ownerId"
  show "delete_post E st now req =
              (Response 200 (Text ''Post deleted successfully''),
               st\<lparr>posts := deleteOne (p_id post) (posts st)\<rparr>)"
    using delete_post_authed [OF auth stored owner] e by simp
next
  fix st'
  assume e: "field identity ''userId'' = JStr ownerId"
    and s: "Post_save st False
                        (set_content E (field (req_body req) ''content'')
                           (set_title E (field (req_body req) ''title'') (post, []))) = Inr st'"
  show "update_post E st now req = (Response 200 (Text ''Post updated successfully''), st')"
    using update_post_authed [OF auth stored owner] e s by simp
next
  assume e: "field identity ''userId'' = JStr ownerId"
    and v: "Post_validate (post, []) = [] \<and>
              nonempty_string (field (req_body req) ''title'') \<and>
              nonempty_string (field (req_body req) ''content'')"
  let ?p = "post\<lparr>p_title := field (req_body req) ''title'',
                  p_content := field (req_body req) ''content''\<rparr>"
  have s: "set_content E (field (req_body req) ''content'')
             (set_title E (field (req_body req) ''title'') (post, [])) = (?p, [])"
    using v by (simp add: set_text)
  have "Post_validate (?p, []) = []"
    using v
    by (auto simp: Post_validate_def failing_paths_def nonempty_string_def required_string_def
        split: jsval.splits if_splits)
  then have "Post_save st False (?p, []) = Inr (st\<lparr>posts := updateOne ?p (posts st)\<rparr>)"
    by (simp add: Post_save_def)
  then show "update_post E st now req =
                   (Response 200 (Text ''Post updated successfully''),
                    st\<lparr>posts := updateOne ?p (posts st)\<rparr>)"
    using update_post_authed [OF auth stored owner] e s by simp
next
  assume e: "field identity ''userId'' = JStr ownerId"
  show "status (fst (update_post E st now req)) \<noteq> 403"
    using update_post_authed [OF auth stored owner] e by (simp split: sum.splits)
qed

text \<open>A post of the first user: the token of the second is refused on both routes, the
  token of the first deletes it, and updates it.\<close>

theorem owner_only_mutation_witness:
  "delete_post demo_env
      \<lparr>users = [], posts = [\<lparr>p_id = post1_id, p_title = JStr ''hello'', p_content = JStr ''world'',
                              p_user = JOid ann_id, p_likes = 0, p_dislikes = 0\<rparr>]\<rparr> 5
      (json_request (Some bob_bearer) post1_id []) =
     (Response 403 (Text ''Unauthorized action''),
      \<lparr>users = [], posts = [\<lparr>p_id = post1_id, p_title = JStr ''hello'', p_content = JStr ''world'',
                              p_user = JOid ann_id, p_likes = 0, p_dislikes = 0\<rparr>]\<rparr>)
   \<and> update_post demo_env
      \<lparr>users = [], posts = [\<lparr>p_id = post1_id, p_title = JStr ''hello'', p_content = JStr ''world'',
                              p_user = JOid ann_id, p_likes = 0, p_dislikes = 0\<rparr>]\<rparr> 5
      (json_request (Some bob_bearer) post1_id []) =
     (Response 403 (Text ''Unauthorized action''),
      \<lparr>users = [], posts = [\<lparr>p_id = post1_id, p_title = JStr ''hello'', p_content = JStr ''world'',
                              p_user = JOid ann_id, p_likes = 0, p_dislikes = 0\<rparr>]\<rparr>)
   \<and> delete_post demo_env
      \<lparr>users = [], posts = [\<lparr>p_id = post1_id, p_title = JStr ''hello'', p_content = JStr ''world'',
                              p_user = JOid ann_id, p_likes = 0, p_dislikes = 0\<rparr>]\<rparr> 5
      (json_request (Some ann_bearer) post1_id
         [(''title'', JStr ''new''), (''content'', JStr ''text'')]) =
     (Response 200 (Text ''Post deleted successfully''), \<lparr>users = [], posts = []\<rparr>)
   \<and> update_post demo_env
      \<lparr>users = [], posts = [\<lparr>p_id = post1_id, p_title = JStr ''hello'', p_content = JStr ''world'',
                              p_user = JOid ann_id, p_likes = 0, p_dislikes = 0\<rparr>]\<rparr> 5
      (json_request (Some ann_bearer) post1_id
         [(''title'', JStr ''new''), (''content'', JStr ''text'')]) =
     (Response 200 (Text ''Post updated successfully''),
      \<lparr>users = [], posts = [\<lparr>p_id = post1_id, p_title = JStr ''new'', p_content = JStr ''text'',
                              p_user = JOid ann_id, p_likes = 0, p_dislikes = 0\<rparr>]\<rparr>)"
proof -
  let ?p = "\<lparr>p_id = post1_id, p_title = JStr ''hello'', p_content = JStr ''world'',
            p_user = JOid ann_id, p_likes = 0, p_dislikes = 0\<rparr>"
  let ?st = "\<lparr>users = [], posts = [?p]\<rparr>"
  let ?bob = "json_request (Some bob_bearer) post1_id []"
  let ?ann = "json_request (Some ann_bearer) post1_id
         [(''title'', JStr ''new''), (''content'', JStr ''text'')]"
  note ab = demo_authenticated(2) [of post1_id "[]"]
  note aa = demo_authenticated(1) [of post1_id "[(''title'', JStr ''new''), (''content'', JStr ''text'')]"]
  have fb: "Post_findById demo_env ?st (params_id ?bob) = Inr (Some ?p)"
    by (simp add: Post_findById_def json_request_def)
  have fa: "Post_findById demo_env ?st (params_id ?ann) = Inr (Some ?p)"
    by (simp add: Post_findById_def json_request_def)
  have o: "p_user ?p = JOid ann_id" by simp
  have nb: "field [(''userId'', JStr bob_id), (''username'', JStr ''bob'')] ''userId'' \<noteq> JStr ann_id"
    by (simp add: field_def)
  have na: "field [(''userId'', JStr ann_id), (''username'', JStr ''ann'')] ''userId'' = JStr ann_id"
    by (simp add: field_def)
  have sv: "Post_save ?st False
              (set_content demo_env (field (req_body ?ann) ''content'')
                 (set_title demo_env (field (req_body ?ann) ''title'') (?p, []))) =
            Inr \<lparr>users = [], posts = [\<lparr>p_id = post1_id, p_title = JStr ''new'', p_content = JStr ''text'',
                              p_user = JOid ann_id, p_likes = 0, p_dislikes = 0\<rparr>]\<rparr>"
    by (simp add: route_defs)
  have dl: "?st\<lparr>posts := deleteOne (p_id ?p) (posts ?st)\<rparr> = \<lparr>users = [], posts = []\<rparr>"
    by simp
  from owner_only_mutation [OF ab fb o] nb
  have b: "delete_post demo_env ?st 5 ?bob = (Response 403 (Text ''Unauthorized action''), ?st) \<and>
           update_post demo_env ?st 5 ?bob = (Response 403 (Text ''Unauthorized action''), ?st)"
    by blast
  from owner_only_mutation [OF aa fa o] na
  have a1: "delete_post demo_env ?st 5 ?ann =
             (Response 200 (Text ''Post deleted successfully''),
              ?st\<lparr>posts := deleteOne (p_id ?p) (posts ?st)\<rparr>)"
    by blast
  from owner_only_mutation [OF aa fa o] na sv
  have a2: "update_post demo_env ?st 5 ?ann =
             (Response 200 (Text ''Post updated successfully''),
              \<lparr>users = [], posts = [\<lparr>p_id = post1_id, p_title = JStr ''new'', p_content = JStr ''text'',
                              p_user = JOid ann_id, p_likes = 0, p_dislikes = 0\<rparr>]\<rparr>)"
    by blast
  from a1 dl have a1': "delete_post demo_env ?st 5 ?ann =
             (Response 200 (Text ''Post deleted successfully''), \<lparr>users = [], posts = []\<rparr>)"
    by (simp only:)
  from a1' a2 b show ?thesis by blast
qed

section \<open>What a call does to the store\<close>

lemma authenticateToken_rejects:
  "authenticateToken E now req = Inl res \<Longrightarrow> status res = 401 \<or> status res = 403"
  unfolding authenticateToken_def
  by (cases "token_of (authorization req)")
     (auto split: if_splits sum.splits)

lemma set_fields_cases:
  "(\<exists>T C. cast_string E t = Some T \<and> cast_string E c = Some C \<and>
          set_content E c (set_title E t (post, [])) = (post\<lparr>p_title := T, p_content := C\<rparr>, []))
   \<or> snd (set_content E c (set_title E t (post, []))) \<noteq> []"
  by (auto simp: set_content_def set_title_def split: option.splits)

lemma set_fields_frame:
  "p_id (fst (set_content E c (set_title E t (post, [])))) = p_id post \<and>
   p_user (fst (set_content E c (set_title E t (post, [])))) = p_user post \<and>
   p_likes (fst (set_content E c (set_title E t (post, [])))) = p_likes post \<and>
   p_dislikes (fst (set_content E c (set_title E t (post, [])))) = p_dislikes post"
  by (auto simp: set_content_def set_title_def split: option.splits)

lemma validate_errors: "Post_validate d = [] \<Longrightarrow> snd d = [] \<and> Post_validate (fst d, []) = []"
  by (simp add: Post_validate_nil)

lemma save_loaded_ok:
  assumes "Post_save st False d = Inr st'"
  shows "snd d = [] \<and> Post_validate (fst d, []) = [] \<and>
         st' = st\<lparr>posts := updateOne (fst d) (posts st)\<rparr>"
proof -
  from assms have v: "Post_validate d = []" and s: "st' = st\<lparr>posts := updateOne (fst d) (posts st)\<rparr>"
    by (auto simp: Post_save_def split: if_splits)
  from validate_errors [OF v] s show ?thesis by simp
qed

lemma save_new_ok:
  assumes "Post_save st True d = Inr st'"
  shows "snd d = [] \<and> Post_validate (fst d, []) = [] \<and> st' = st\<lparr>posts := posts st @ [fst d]\<rparr>"
proof -
  from assms have v: "Post_validate d = []" and s: "st' = st\<lparr>posts := posts st @ [fst d]\<rparr>"
    by (auto simp: Post_save_def split: if_splits)
  from validate_errors [OF v] s show ?thesis by simp
qed

lemma validated_text:
  "Post_validate (p, []) = [] \<Longrightarrow> nonempty_string (p_title p) \<and> nonempty_string (p_content p)"
  by (auto simp: Post_validate_nil nonempty_string_def required_string_def
      split: jsval.splits)

text \<open>The update, once the request is authenticated, the post found and the caller its
  owner.\<close>

lemma update_post_owner:
  assumes "authenticateToken E now req = Inr identity"
      and "Post_findById E st (params_id req) = Inr (Some post)"
      and "not_owner post identity = Inr False"
  shows "update_post E st now req =
           (case Post_save st False
                   (set_content E (field (req_body req) ''content'')
                      (set_title E (field (req_body req) ''title'') (post, []))) of
              Inl e \<Rightarrow> (Response 500 (ErrorMessage e), st)
            | Inr st' \<Rightarrow> (Response 200 (Text ''Post updated successfully''), st'))"
  using assms by (simp add: update_post_def)

lemma update_post_stops:
  assumes "authenticateToken E now req = Inl r
           \<or> (\<exists>e. Post_findById E st (params_id req) = Inl e)
           \<or> Post_findById E st (params_id req) = Inr None
           \<or> (\<exists>identity post. authenticateToken E now req = Inr identity \<and>
                 Post_findById E st (params_id req) = Inr (Some post) \<and>
                 not_owner post identity \<noteq> Inr False)"
  shows "snd (update_post E st now req) = st \<and> status (fst (update_post E st now req)) \<noteq> 200"
proof (cases "authenticateToken E now req")
  case (Inl r)
  with authenticateToken_rejects [OF Inl] show ?thesis by (auto simp: update_post_def)
next
  case (Inr identity)
  note auth = Inr
  show ?thesis
  proof (cases "Post_findById E st (params_id req)")
    case (Inl e)
    with auth show ?thesis by (simp add: update_post_def)
  next
    case (Inr found)
    note look = Inr
    show ?thesis
    proof (cases found)
      case None
      with auth look show ?thesis by (simp add: update_post_def)
    next
      case (Some post)
      with assms auth look have n: "not_owner post identity \<noteq> Inr False" by auto
      show ?thesis
      proof (cases "not_owner post identity")
        case (Inl e)
        with auth look Some show ?thesis by (simp add: update_post_def)
      next
        case (Inr differs)
        with n have differs by simp
        with Inr auth look Some show ?thesis by (simp add: update_post_def)
      qed
    qed
  qed
qed

lemma update_post_reaches:
  assumes "snd (update_post E st now req) \<noteq> st \<or> status (fst (update_post E st now req)) = 200"
  shows "\<exists>identity post. authenticateToken E now req = Inr identity \<and>
           Post_findById E st (params_id req) = Inr (Some post) \<and>
           not_owner post identity = Inr False"
proof (rule ccontr)
  assume n: "\<not> ?thesis"
  have "authenticateToken E now req = Inl (projl (authenticateToken E now req))
         \<or> (\<exists>e. Post_findById E st (params_id req) = Inl e)
         \<or> Post_findById E st (params_id req) = Inr None
         \<or> (\<exists>identity post. authenticateToken E now req = Inr identity \<and>
               Post_findById E st (params_id req) = Inr (Some post) \<and>
               not_owner post identity \<noteq> Inr False)"
  proof (cases "authenticateToken E now req")
    case (Inl r)
    then show ?thesis by simp
  next
    case (Inr identity)
    show ?thesis
    proof (cases "Post_findById E st (params_id req)")
      case (Inl e)
      then show ?thesis by simp
    next
      case look: (Inr found)
      show ?thesis
      proof (cases found)
        case None
        with look show ?thesis by simp
      next
        case (Some post)
        with n Inr look show ?thesis by auto
      qed
    qed
  qed
  from update_post_stops [OF this] assms show False by simp
qed

lemma update_post_200:
  assumes "update_post E st now req = (res, st')" and "status res = 200"
  shows "\<exists>identity post T C.
           authenticateToken E now req = Inr identity \<and>
           Post_findById E st (params_id req) = Inr (Some post) \<and>
           not_owner post identity = Inr False \<and>
           cast_string E (field (req_body req) ''title'') = Some T \<and>
           cast_string E (field (req_body req) ''content'') = Some C \<and>
           Post_validate (post\<lparr>p_title := T, p_content := C\<rparr>, []) = [] \<and>
           st' = st\<lparr>posts := updateOne (post\<lparr>p_title := T, p_content := C\<rparr>) (posts st)\<rparr>"
proof -
  let ?d = "\<lambda>post. set_content E (field (req_body req) ''content'')
                      (set_title E (field (req_body req) ''title'') (post, []))"
  from assms have "snd (update_post E st now req) \<noteq> st \<or>
                   status (fst (update_post E st now req)) = 200" by simp
  from update_post_reaches [OF this] obtain identity post where
    auth: "authenticateToken E now req = Inr identity"
    and look: "Post_findById E st (params_id req) = Inr (Some post)"
    and own: "not_owner post identity = Inr False"
    by blast
  note u = update_post_owner [OF auth look own]
  show ?thesis
  proof (cases "Post_save st False (?d post)")
    case (Inl e)
    with u assms show ?thesis by simp
  next
    case (Inr st'')
    with u assms have eq: "st'' = st'" by simp
    from save_loaded_ok [OF Inr] eq
    have e: "snd (?d post) = []" and v: "Post_validate (fst (?d post), []) = []"
      and s: "st' = st\<lparr>posts := updateOne (fst (?d post)) (posts st)\<rparr>"
      by simp_all
    from set_fields_cases [of E "field (req_body req) ''title''" "field (req_body req) ''content''" post] e
    obtain T C where
      "cast_string E (field (req_body req) ''title'') = Some T"
      "cast_string E (field (req_body req) ''content'') = Some C"
      "?d post = (post\<lparr>p_title := T, p_content := C\<rparr>, [])"
      by blast
    with auth look own v s show ?thesis by auto
  qed
qed

lemma set_updateOne_others:
  "q \<in> set qs \<Longrightarrow> p_id q \<noteq> p_id p \<Longrightarrow> q \<in> set (updateOne p qs)"
  by (induction qs) auto

lemma cast_string_text:
  assumes "cast_string E v = Some T" and "nonempty_string T"
  shows "\<exists>t. T = JStr t \<and> t \<noteq> [] \<and> (\<forall>s. v = JStr s \<longrightarrow> t = s)"
  using assms by (cases T) (auto simp: nonempty_string_def cast_string_def split: jsval.splits)

lemma update_frame_part:
  assumes "update_post E st now req = (res, st')" and "status res = 200"
  shows "\<exists>post t c. Post_findById E st (params_id req) = Inr (Some post) \<and>
           cast_string E (field (req_body req) ''title'') = Some (JStr t) \<and> t \<noteq> [] \<and>
           cast_string E (field (req_body req) ''content'') = Some (JStr c) \<and> c \<noteq> [] \<and>
           (\<forall>s. field (req_body req) ''title'' = JStr s \<longrightarrow> t = s) \<and>
           (\<forall>s. field (req_body req) ''content'' = JStr s \<longrightarrow> c = s) \<and>
           Post_findById E st' (params_id req) =
             Inr (Some (post\<lparr>p_title := JStr t, p_content := JStr c\<rparr>)) \<and>
           (\<forall>i. castObjectId E (JStr i) \<noteq> castObjectId E (JStr (params_id req)) \<longrightarrow>
                Post_findById E st' i = Post_findById E st i) \<and>
           (\<forall>j. j \<noteq> p_id post \<longrightarrow>
                find (\<lambda>q. p_id q = j) (posts st') = find (\<lambda>q. p_id q = j) (posts st)) \<and>
           (\<forall>q \<in> set (posts st). p_id q \<noteq> p_id post \<longrightarrow> q \<in> set (posts st')) \<and>
           map p_id (posts st') = map p_id (posts st) \<and> users st' = users st"
proof -
  from update_post_200 [OF assms] obtain identity post T C where
    f: "Post_findById E st (params_id req) = Inr (Some post)"
    and cT: "cast_string E (field (req_body req) ''title'') = Some T"
    and cC: "cast_string E (field (req_body req) ''content'') = Some C"
    and v: "Post_validate (post\<lparr>p_title := T, p_content := C\<rparr>, []) = []"
    and s: "st' = st\<lparr>posts := updateOne (post\<lparr>p_title := T, p_content := C\<rparr>) (posts st)\<rparr>"
    by blast
  from validated_text [OF v] have "nonempty_string T" and "nonempty_string C" by simp_all
  with cast_string_text [OF cT] cast_string_text [OF cC] obtain t c where
    T: "T = JStr t" "t \<noteq> []" "\<forall>s. field (req_body req) ''title'' = JStr s \<longrightarrow> t = s"
    and C: "C = JStr c" "c \<noteq> []" "\<forall>s. field (req_body req) ''content'' = JStr s \<longrightarrow> c = s"
    by blast
  let ?p = "post\<lparr>p_title := JStr t, p_content := JStr c\<rparr>"
  have s': "st' = st\<lparr>posts := updateOne ?p (posts st)\<rparr>" using s T C by simp
  have 0: "cast_string E (field (req_body req) ''title'') = Some (JStr t)"
    "cast_string E (field (req_body req) ''content'') = Some (JStr c)"
    using cT cC T C by simp_all
  have 1: "Post_findById E st' (params_id req) = Inr (Some ?p)"
    using f s' by (simp add: findById_after_update)
  have 2: "\<forall>i. castObjectId E (JStr i) \<noteq> castObjectId E (JStr (params_id req)) \<longrightarrow>
                Post_findById E st' i = Post_findById E st i"
    using f s' by (simp add: findById_other_after_update)
  have 3: "\<forall>j. j \<noteq> p_id post \<longrightarrow>
                find (\<lambda>q. p_id q = j) (posts st') = find (\<lambda>q. p_id q = j) (posts st)"
    using s' by (simp add: find_updateOne)
  have 4: "\<forall>q \<in> set (posts st). p_id q \<noteq> p_id post \<longrightarrow> q \<in> set (posts st')"
    using s' by (simp add: set_updateOne_others)
  have 5: "map p_id (posts st') = map p_id (posts st)"
    using s' by (simp add: ids_updateOne)
  have 6: "users st' = users st"
    using s' by simp
  note T(2,3) C(2,3)
  show ?thesis
    by (rule exI [of _ post], rule exI [of _ t], rule exI [of _ c]) (intro conjI; fact)
qed

text \<open>What one call can do to the store: nothing, add a user whose name was free, add
  a post that passed validation, replace a stored post by one of the same id and owner
  that passed validation, or delete a post.\<close>

lemma truthy_password: "truthy v \<Longrightarrow> hash_js E v rounds salt = Inr h \<Longrightarrow>
    \<exists>p. v = JStr p \<and> p \<noteq> [] \<and> h = bcrypt_hash E (take 72 p) rounds salt"
  by (cases v) (auto simp: hash_js_def)

lemma cast_query:
  "cast_string E v = Some (JStr s) \<Longrightarrow> query_string E v = Some s"
  by (cases v) (auto simp: cast_string_def query_string_def)

lemma user_saved:
  assumes "User_save st (new_User E new_id username (JStr h)) = Inr st'"
  shows "\<exists>s. cast_string E username = Some (JStr s) \<and> s \<noteq> [] \<and> h \<noteq> [] \<and>
           st' = st\<lparr>users := users st @ [\<lparr>u_id = new_id, u_username = JStr s, u_password = JStr h\<rparr>]\<rparr>"
proof -
  from assms have v: "User_validate (new_User E new_id username (JStr h)) = []"
    and s: "st' = st\<lparr>users := users st @ [fst (new_User E new_id username (JStr h))]\<rparr>"
    by (auto simp: User_save_def split: if_splits)
  from v have e: "cast_errors [(''username'', cast_string E username),
                               (''password'', cast_string E (JStr h))] = []"
    and r: "required_string (held (cast_string E username))" "required_string (JStr h)"
    by (simp_all add: User_validate_nil new_User_def held_def cast_string_def)
  from e obtain w where c: "cast_string E username = Some w"
    by (cases "cast_string E username") (simp_all add: cast_errors_def)
  with r(1) obtain t where w: "w = JStr t" "t \<noteq> []"
    by (cases w) (auto simp: required_string_def held_def)
  from r(2) have "h \<noteq> []" by (simp add: required_string_def)
  with c w s show ?thesis by (simp add: new_User_def held_def cast_string_def)
qed

lemma signup_saved:
  assumes "snd (signup E st new_id salt req) \<noteq> st \<or> status (fst (signup E st new_id salt req)) = 201"
  shows "\<exists>s p. cast_string E (field (req_body req) ''username'') = Some (JStr s) \<and> s \<noteq> [] \<and>
           field (req_body req) ''password'' = JStr p \<and> p \<noteq> [] \<and>
           truthy (field (req_body req) ''username'') \<and>
           find (\<lambda>w. u_username w = JStr s) (users st) = None \<and>
           signup E st new_id salt req =
             (Response 201 (Text ''User created successfully''),
              st\<lparr>users := users st @
                   [\<lparr>u_id = new_id, u_username = JStr s,
                     u_password = JStr (bcrypt_hash E (take 72 p) 10 salt)\<rparr>]\<rparr>)"
proof -
  let ?u = "field (req_body req) ''username''" and ?pw = "field (req_body req) ''password''"
  have t: "truthy ?u \<and> truthy ?pw"
  proof (rule ccontr)
    assume "\<not> (truthy ?u \<and> truthy ?pw)"
    then have "signup E st new_id salt req =
                 (Response 400 (Text ''Username and password are required''), st)"
      by (auto simp: signup_def Let_def)
    with assms show False by simp
  qed
  have look: "User_findOne E st ?u = Inr None"
  proof (cases "User_findOne E st ?u")
    case (Inl e)
    with t have "signup E st new_id salt req = (Response 500 (ErrorMessage e), st)"
      by (simp add: signup_def Let_def)
    with assms show ?thesis by simp
  next
    case (Inr found)
    show ?thesis
    proof (cases found)
      case None
      with Inr show ?thesis by simp
    next
      case (Some existing)
      with Inr t have "signup E st new_id salt req =
                         (Response 409 (Text ''Username already exists''), st)"
        by (simp add: signup_def Let_def)
      with assms show ?thesis by simp
    qed
  qed
  obtain h where h: "hash_js E ?pw 10 salt = Inr h"
  proof (cases "hash_js E ?pw 10 salt")
    case (Inl e)
    with t look have "signup E st new_id salt req = (Response 500 (ErrorMessage e), st)"
      by (simp add: signup_def Let_def)
    with assms show ?thesis by simp
  next
    case (Inr h)
    with that show ?thesis .
  qed
  from truthy_password [OF _ h] t obtain p where
    p: "?pw = JStr p" "p \<noteq> []" "h = bcrypt_hash E (take 72 p) 10 salt" by blast
  have s: "signup E st new_id salt req =
             (case User_save st (new_User E new_id ?u (JStr h)) of
                Inl e \<Rightarrow> (Response 500 (ErrorMessage e), st)
              | Inr st' \<Rightarrow> (Response 201 (Text ''User created successfully''), st'))"
    using t look h by (simp add: signup_def Let_def)
  obtain st' where sv: "User_save st (new_User E new_id ?u (JStr h)) = Inr st'"
  proof (cases "User_save st (new_User E new_id ?u (JStr h))")
    case (Inl e)
    with s assms show ?thesis by simp
  next
    case (Inr st')
    with that show ?thesis .
  qed
  from user_saved [OF sv] obtain n where
    n: "cast_string E ?u = Some (JStr n)" "n \<noteq> []"
    and st': "st' = st\<lparr>users := users st @ [\<lparr>u_id = new_id, u_username = JStr n, u_password = JStr h\<rparr>]\<rparr>"
    by blast
  from cast_query [OF n(1)] look have free: "find (\<lambda>w. u_username w = JStr n) (users st) = None"
    by (simp add: User_findOne_def)
  from s sv st' p(3) have "signup E st new_id salt req =
             (Response 201 (Text ''User created successfully''),
              st\<lparr>users := users st @
                   [\<lparr>u_id = new_id, u_username = JStr n,
                     u_password = JStr (bcrypt_hash E (take 72 p) 10 salt)\<rparr>]\<rparr>)"
    by simp
  with n p(1,2) t free show ?thesis by blast
qed

lemma create_post_effect:
  "snd (create_post E st now new_id req) = st \<or>
   (\<exists>p. Post_validate (p, []) = [] \<and> p_likes p = 0 \<and> p_dislikes p = 0 \<and>
        snd (create_post E st now new_id req) = st\<lparr>posts := posts st @ [p]\<rparr>)"
proof (cases "authenticateToken E now req")
  case (Inl r)
  then show ?thesis by (simp add: create_post_def)
next
  case (Inr user)
  let ?d = "new_Post E new_id (field (req_body req) ''title'') (field (req_body req) ''content'')
              (field user ''userId'')"
  show ?thesis
  proof (cases "Post_save st True ?d")
    case (Inl e)
    with Inr show ?thesis by (simp add: create_post_def)
  next
    case save: (Inr st')
    with Inr have "snd (create_post E st now new_id req) = st'" by (simp add: create_post_def)
    moreover have "p_likes (fst ?d) = 0 \<and> p_dislikes (fst ?d) = 0" by (simp add: new_Post_def)
    ultimately show ?thesis using save_new_ok [OF save] by auto
  qed
qed

lemma delete_post_effect:
  "snd (delete_post E st now req) = st \<or>
   (\<exists>i. snd (delete_post E st now req) = st\<lparr>posts := deleteOne i (posts st)\<rparr>)"
proof (cases "authenticateToken E now req")
  case (Inl r)
  then show ?thesis by (simp add: delete_post_def)
next
  case (Inr user)
  note auth = Inr
  show ?thesis
  proof (cases "Post_findById E st (params_id req)")
    case (Inl e)
    with auth show ?thesis by (simp add: delete_post_def)
  next
    case look: (Inr found)
    show ?thesis
    proof (cases found)
      case None
      with auth look show ?thesis by (simp add: delete_post_def)
    next
      case (Some post)
      from look Some have f: "Post_findById E st (params_id req) = Inr (Some post)" by simp
      show ?thesis
      proof (cases "not_owner post user")
        case (Inl e)
        with auth f show ?thesis by (simp add: delete_post_def)
      next
        case (Inr differs)
        with auth f findById_found [OF f] show ?thesis
          by (auto simp: delete_post_def Post_findByIdAndDelete_def)
      qed
    qed
  qed
qed

lemma save_loaded:
  assumes "Post_findById E st postId = Inr (Some p)"
      and "p_id (fst d) = p_id p"
      and "Post_save st False d = Inr st'"
  shows "find (\<lambda>q. p_id q = p_id (fst d)) (posts st) = Some p \<and>
         Post_validate (fst d, []) = [] \<and> st' = st\<lparr>posts := updateOne (fst d) (posts st)\<rparr>"
proof -
  from findById_found [OF assms(1)] assms(2)
  have "find (\<lambda>q. p_id q = p_id (fst d)) (posts st) = Some p" by simp
  with save_loaded_ok [OF assms(3)] show ?thesis by blast
qed

lemma update_post_effect:
  "snd (update_post E st now req) = st \<or>
   (\<exists>p p'. find (\<lambda>q. p_id q = p_id p') (posts st) = Some p \<and> p_user p' = p_user p \<and>
      (p_likes p' = p_likes p \<or> p_likes p' = plus_one (p_likes p)) \<and>
      (p_dislikes p' = p_dislikes p \<or> p_dislikes p' = plus_one (p_dislikes p)) \<and>
      Post_validate (p', []) = [] \<and>
      snd (update_post E st now req) = st\<lparr>posts := updateOne p' (posts st)\<rparr>)"
proof (cases "snd (update_post E st now req) = st")
  case True
  then show ?thesis by simp
next
  case False
  then have "snd (update_post E st now req) \<noteq> st \<or>
             status (fst (update_post E st now req)) = 200" by simp
  from update_post_reaches [OF this] obtain identity post where
    auth: "authenticateToken E now req = Inr identity"
    and look: "Post_findById E st (params_id req) = Inr (Some post)"
    and own: "not_owner post identity = Inr False"
    by blast
  let ?d = "set_content E (field (req_body req) ''content'')
              (set_title E (field (req_body req) ''title'') (post, []))"
  note u = update_post_owner [OF auth look own]
  show ?thesis
  proof (cases "Post_save st False ?d")
    case (Inl e)
    with u False show ?thesis by simp
  next
    case (Inr st')
    with u have "snd (update_post E st now req) = st'" by simp
    with save_loaded [OF look _ Inr] set_fields_frame [of E _ _ post] show ?thesis
      by (intro disjI2 exI [of _ post] exI [of _ "fst ?d"]) simp
  qed
qed

lemma like_post_effect:
  "snd (like_post E st req) = st \<or>
   (\<exists>p p'. find (\<lambda>q. p_id q = p_id p') (posts st) = Some p \<and> p_user p' = p_user p \<and>
      (p_likes p' = p_likes p \<or> p_likes p' = plus_one (p_likes p)) \<and>
      (p_dislikes p' = p_dislikes p \<or> p_dislikes p' = plus_one (p_dislikes p)) \<and>
      Post_validate (p', []) = [] \<and>
      snd (like_post E st req) = st\<lparr>posts := updateOne p' (posts st)\<rparr>)"
proof (cases "Post_findById E st (params_id req)")
  case (Inl e)
  then show ?thesis by (simp add: like_post_def)
next
  case look: (Inr found)
  show ?thesis
  proof (cases found)
    case None
    with look show ?thesis by (simp add: like_post_def)
  next
    case (Some post)
    from look Some have f: "Post_findById E st (params_id req) = Inr (Some post)" by simp
    let ?d = "(post\<lparr>p_likes := plus_one (if p_likes post \<noteq> 0 then p_likes post else 0)\<rparr>,
               [] :: string list)"
    show ?thesis
    proof (cases "Post_save st False ?d")
      case (Inl e)
      with f show ?thesis by (simp add: like_post_def)
    next
      case (Inr st')
      with f have "snd (like_post E st req) = st'" by (simp add: like_post_def)
      with save_loaded [OF f _ Inr] show ?thesis
        by (intro disjI2 exI [of _ post] exI [of _ "fst ?d"]) simp
    qed
  qed
qed

lemma dislike_post_effect:
  "snd (dislike_post E st req) = st \<or>
   (\<exists>p p'. find (\<lambda>q. p_id q = p_id p') (posts st) = Some p \<and> p_user p' = p_user p \<and>
      (p_likes p' = p_likes p \<or> p_likes p' = plus_one (p_likes p)) \<and>
      (p_dislikes p' = p_dislikes p \<or> p_dislikes p' = plus_one (p_dislikes p)) \<and>
      Post_validate (p', []) = [] \<and>
      snd (dislike_post E st req) = st\<lparr>posts := updateOne p' (posts st)\<rparr>)"
proof (cases "Post_findById E st (params_id req)")
  case (Inl e)
  then show ?thesis by (simp add: dislike_post_def)
next
  case look: (Inr found)
  show ?thesis
  proof (cases found)
    case None
    with look show ?thesis by (simp add: dislike_post_def)
  next
    case (Some post)
    from look Some have f: "Post_findById E st (params_id req) = Inr (Some post)" by simp
    let ?d = "(post\<lparr>p_dislikes := plus_one (if p_dislikes post \<noteq> 0 then p_dislikes post else 0)\<rparr>,
               [] :: string list)"
    show ?thesis
    proof (cases "Post_save st False ?d")
      case (Inl e)
      with f show ?thesis by (simp add: dislike_post_def)
    next
      case (Inr st')
      with f have "snd (dislike_post E st req) = st'" by (simp add: dislike_post_def)
      with save_loaded [OF f _ Inr] show ?thesis
        by (intro disjI2 exI [of _ post] exI [of _ "fst ?d"]) simp
    qed
  qed
qed

lemma handle_effect:
  "snd (handle E st c) = st \<or>
   (\<exists>u s. u_username u = JStr s \<and> find (\<lambda>w. u_username w = JStr s) (users st) = None \<and>
        snd (handle E st c) = st\<lparr>users := users st @ [u]\<rparr>) \<or>
   (\<exists>p. Post_validate (p, []) = [] \<and> p_likes p = 0 \<and> p_dislikes p = 0 \<and>
        snd (handle E st c) = st\<lparr>posts := posts st @ [p]\<rparr>) \<or>
   (\<exists>p p'. find (\<lambda>q. p_id q = p_id p') (posts st) = Some p \<and> p_user p' = p_user p \<and>
      (p_likes p' = p_likes p \<or> p_likes p' = plus_one (p_likes p)) \<and>
      (p_dislikes p' = p_dislikes p \<or> p_dislikes p' = plus_one (p_dislikes p)) \<and>
      Post_validate (p', []) = [] \<and>
      snd (handle E st c) = st\<lparr>posts := updateOne p' (posts st)\<rparr>) \<or>
   (\<exists>i. snd (handle E st c) = st\<lparr>posts := deleteOne i (posts st)\<rparr>)"
proof (cases c)
  case (Pair now call)
  show ?thesis
  proof (cases call)
    case (Signup new_id salt req)
    show ?thesis
    proof (cases "snd (signup E st new_id salt req) = st")
      case True
      with Pair Signup show ?thesis by simp
    next
      case False
      then have "snd (signup E st new_id salt req) \<noteq> st \<or>
                 status (fst (signup E st new_id salt req)) = 201" by simp
      from signup_saved [OF this] obtain s p where
        free: "find (\<lambda>w. u_username w = JStr s) (users st) = None"
        and sg: "signup E st new_id salt req =
             (Response 201 (Text ''User created successfully''),
              st\<lparr>users := users st @
                   [\<lparr>u_id = new_id, u_username = JStr s,
                     u_password = JStr (bcrypt_hash E (take 72 p) 10 salt)\<rparr>]\<rparr>)"
        by blast
      let ?u = "\<lparr>u_id = new_id, u_username = JStr s,
                 u_password = JStr (bcrypt_hash E (take 72 p) 10 salt)\<rparr>"
      have "u_username ?u = JStr s" by simp
      moreover have "snd (handle E st c) = st\<lparr>users := users st @ [?u]\<rparr>"
        using Pair Signup sg by simp
      ultimately show ?thesis using free by blast
    qed
  next
    case (Login req)
    with Pair show ?thesis by simp
  next
    case (CreatePost new_id req)
    with Pair create_post_effect [of E st now new_id req] show ?thesis by auto
  next
    case ListPosts
    with Pair show ?thesis by simp
  next
    case (DeletePost req)
    with Pair delete_post_effect [of E st now req] show ?thesis by auto
  next
    case (UpdatePost req)
    with Pair update_post_effect [of E st now req] show ?thesis by auto
  next
    case (Like req)
    with Pair like_post_effect [of E st req] show ?thesis by auto
  next
    case (Dislike req)
    with Pair dislike_post_effect [of E st req] show ?thesis by auto
  qed
qed

lemma run_Cons_snd: "snd (run E st (c # cs)) = snd (run E (snd (handle E st c)) cs)"
  by (simp split: prod.splits)

lemma run_Cons_fst:
  "fst (run E st (c # cs)) = fst (handle E st c) # fst (run E (snd (handle E st c)) cs)"
  by (simp split: prod.splits)

lemma run_invariant:
  assumes "P st" and "\<And>st c. P st \<Longrightarrow> P (snd (handle E st c))"
  shows "P (snd (run E st cs))"
  using assms(1)
proof (induction cs arbitrary: st)
  case Nil
  then show ?case by simp
next
  case (Cons c cs)
  from assms(2) [OF Cons.prems] have "P (snd (handle E st c))" .
  from Cons.IH [OF this] show ?case by (simp only: run_Cons_snd)
qed

lemma handle_posts_ok:
  assumes "posts_ok st"
  shows "posts_ok (snd (handle E st c))"
proof -
  let ?P = "\<lambda>p. nonempty_string (p_title p) \<and> nonempty_string (p_content p)"
  from handle_effect [of E st c] consider
      "snd (handle E st c) = st"
    | u where "snd (handle E st c) = st\<lparr>users := users st @ [u]\<rparr>"
    | p where "Post_validate (p, []) = []" "snd (handle E st c) = st\<lparr>posts := posts st @ [p]\<rparr>"
    | p' where "Post_validate (p', []) = []" "snd (handle E st c) = st\<lparr>posts := updateOne p' (posts st)\<rparr>"
    | i where "snd (handle E st c) = st\<lparr>posts := deleteOne i (posts st)\<rparr>"
    by blast
  then show ?thesis
  proof cases
    case 1
    with assms show ?thesis by simp
  next
    case 2
    with assms show ?thesis by (simp add: posts_ok_def)
  next
    case 3
    with assms validated_text [of p] show ?thesis by (simp add: posts_ok_def)
  next
    case 4
    with assms validated_text [of p'] list_all_updateOne [of ?P p' "posts st"]
    show ?thesis by (simp add: posts_ok_def)
  next
    case 5
    with assms list_all_deleteOne [of ?P "posts st" i]
    show ?thesis by (simp add: posts_ok_def)
  qed
qed



lemma absent_gives_no_text: "absent_or_empty v \<Longrightarrow> \<not> gives_text E v"
  by (auto simp: absent_or_empty_def gives_text_def cast_string_def nonempty_string_def)

lemma no_text_invalid:
  assumes "\<not> gives_text E t \<or> \<not> gives_text E c"
      and "cast_string E t = Some T" and "cast_string E c = Some C"
      and "p_title p = T" and "p_content p = C"
  shows "Post_validate (p, []) \<noteq> []"
  using assms validated_text [of p] by (auto simp: gives_text_def)

lemma create_post_rejects:
  assumes "\<not> gives_text E (field (req_body req) ''title'') \<or>
           \<not> gives_text E (field (req_body req) ''content'')"
  shows "snd (create_post E st now new_id req) = st \<and>
         status (fst (create_post E st now new_id req)) \<noteq> 201"
proof (cases "authenticateToken E now req")
  case (Inl r)
  with authenticateToken_rejects [OF Inl] show ?thesis by (auto simp: create_post_def)
next
  case (Inr identity)
  let ?t = "field (req_body req) ''title''" and ?c = "field (req_body req) ''content''"
  let ?d = "new_Post E new_id ?t ?c (field identity ''userId'')"
  have "Post_save st True ?d = Inl (ValidationError (Post_validate ?d))"
  proof (cases "Post_save st True ?d")
    case (Inl e)
    then show ?thesis by (auto simp: Post_save_def split: if_splits)
  next
    case save: (Inr st')
    from save_new_ok [OF save] have e: "snd ?d = []" and v: "Post_validate (fst ?d, []) = []"
      by simp_all
    from e obtain T C where "cast_string E ?t = Some T" "cast_string E ?c = Some C"
      by (auto simp: new_Post_def cast_errors_def split: if_splits)
    moreover from this have "p_title (fst ?d) = T" "p_content (fst ?d) = C"
      by (simp_all add: new_Post_def held_def)
    ultimately have "Post_validate (fst ?d, []) \<noteq> []"
      using assms by (intro no_text_invalid)
    with v show ?thesis by simp
  qed
  with Inr show ?thesis by (simp add: create_post_def)
qed

lemma update_post_rejects:
  assumes "\<not> gives_text E (field (req_body req) ''title'') \<or>
           \<not> gives_text E (field (req_body req) ''content'')"
  shows "snd (update_post E st now req) = st \<and>
         status (fst (update_post E st now req)) \<noteq> 200"
proof -
  obtain res st' where r: "update_post E st now req = (res, st')"
    by (cases "update_post E st now req")
  have no: "status res \<noteq> 200"
  proof
    assume "status res = 200"
    from update_post_200 [OF r this] obtain post T C where
      c: "cast_string E (field (req_body req) ''title'') = Some T"
         "cast_string E (field (req_body req) ''content'') = Some C"
      and v: "Post_validate (post\<lparr>p_title := T, p_content := C\<rparr>, []) = []"
      by blast
    have "Post_validate (post\<lparr>p_title := T, p_content := C\<rparr>, []) \<noteq> []"
      using assms c by (rule no_text_invalid) simp_all
    with v show False by simp
  qed
  have "st' = st"
  proof (rule ccontr)
    assume "st' \<noteq> st"
    with r have "snd (update_post E st now req) \<noteq> st \<or>
                 status (fst (update_post E st now req)) = 200" by simp
    from update_post_reaches [OF this] obtain identity post where
      auth: "authenticateToken E now req = Inr identity"
      and look: "Post_findById E st (params_id req) = Inr (Some post)"
      and own: "not_owner post identity = Inr False"
      by blast
    note u = update_post_owner [OF auth look own]
    show False
    proof (cases "Post_save st False
                   (set_content E (field (req_body req) ''content'')
                      (set_title E (field (req_body req) ''title'') (post, [])))")
      case (Inl e)
      with u r \<open>st' \<noteq> st\<close> show ?thesis by simp
    next
      case (Inr st'')
      with u r no show ?thesis by simp
    qed
  qed
  with no r show ?thesis by simp
qed

lemma handle_owner:
  assumes d: "distinct (map p_id (posts st))"
      and f: "find (\<lambda>q. p_id q = i) (posts st) = Some p"
      and f': "find (\<lambda>q. p_id q = i) (posts (snd (handle E st c))) = Some p'"
  shows "p_user p' = p_user p"
proof -
  from handle_effect [of E st c] consider
      "snd (handle E st c) = st"
    | u where "snd (handle E st c) = st\<lparr>users := users st @ [u]\<rparr>"
    | q where "snd (handle E st c) = st\<lparr>posts := posts st @ [q]\<rparr>"
    | q q' where "find (\<lambda>r. p_id r = p_id q') (posts st) = Some q" "p_user q' = p_user q"
        "snd (handle E st c) = st\<lparr>posts := updateOne q' (posts st)\<rparr>"
    | j where "snd (handle E st c) = st\<lparr>posts := deleteOne j (posts st)\<rparr>"
    by blast
  then show ?thesis
  proof cases
    case 1
    with f f' show ?thesis by simp
  next
    case 2
    with f f' show ?thesis by simp
  next
    case 3
    with f f' find_snoc_Some [of "\<lambda>q. p_id q = i" "posts st" p "[q]"] show ?thesis
      by simp
  next
    case 4
    show ?thesis
    proof (cases "i = p_id q'")
      case True
      with 4 f f' show ?thesis by (simp add: find_updateOne)
    next
      case False
      with 4 f f' show ?thesis by (simp add: find_updateOne)
    qed
  next
    case 5
    show ?thesis
    proof (cases "i = j")
      case True
      with 5 f' find_deleteOne_same [OF d, of j] show ?thesis by simp
    next
      case False
      with 5 f f' show ?thesis by (simp add: find_deleteOne_other)
    qed
  qed
qed

lemma handle_owner_by_route:
  assumes d: "distinct (map p_id (posts st))"
      and f: "Post_findById E st i = Inr (Some p)"
      and f': "Post_findById E (snd (handle E st c)) i = Inr (Some p')"
  shows "p_user p' = p_user p"
proof -
  from findById_found [OF f] findById_found [OF f']
  have "find (\<lambda>q. p_id q = p_id p) (posts st) = Some p"
    and "find (\<lambda>q. p_id q = p_id p) (posts (snd (handle E st c))) = Some p'"
    by simp_all
  with d show ?thesis by (rule handle_owner)
qed

text \<open>
  C8. An update that is answered 200 replaces the target post by the same document
  with the \<^verbatim>\<open>title\<close> and \<^verbatim>\<open>content\<close> of the request (as strings: themselves when they
  are strings): its \<^verbatim>\<open>_id\<close>, owner, \<^verbatim>\<open>likes\<close> and \<^verbatim>\<open>dislikes\<close> are those it had, a lookup
  of any other id gives what it gave, every post of another id is still stored, and the
  users are untouched. And no call of any route changes the owner of a post that is
  stored before and after it (identifiers of stored posts being distinct, as \<^verbatim>\<open>_id\<close>
  is in the database).
\<close>

theorem update_frame:
  "(\<forall>res st'. update_post E st now req = (res, st') \<and> status res = 200 \<longrightarrow>
      (\<exists>post t c. Post_findById E st (params_id req) = Inr (Some post) \<and>
           cast_string E (field (req_body req) ''title'') = Some (JStr t) \<and> t \<noteq> [] \<and>
           cast_string E (field (req_body req) ''content'') = Some (JStr c) \<and> c \<noteq> [] \<and>
           (\<forall>s. field (req_body req) ''title'' = JStr s \<longrightarrow> t = s) \<and>
           (\<forall>s. field (req_body req) ''content'' = JStr s \<longrightarrow> c = s) \<and>
           Post_findById E st' (params_id req) =
             Inr (Some (post\<lparr>p_title := JStr t, p_content := JStr c\<rparr>)) \<and>
           (\<forall>i. castObjectId E (JStr i) \<noteq> castObjectId E (JStr (params_id req)) \<longrightarrow>
                Post_findById E st' i = Post_findById E st i) \<and>
           (\<forall>j. j \<noteq> p_id post \<longrightarrow>
                find (\<lambda>q. p_id q = j) (posts st') = find (\<lambda>q. p_id q = j) (posts st)) \<and>
           (\<forall>q \<in> set (posts st). p_id q \<noteq> p_id post \<longrightarrow> q \<in> set (posts st')) \<and>
           map p_id (posts st') = map p_id (posts st) \<and> users st' = users st))
   \<and> (distinct (map p_id (posts st)) \<longrightarrow>
        (\<forall>c i p p'. Post_findById E st i = Inr (Some p) \<and>
                    Post_findById E (snd (handle E st c)) i = Inr (Some p')
            \<longrightarrow> p_user p' = p_user p)
      \<and> (\<forall>c j p p'. find (\<lambda>q. p_id q = j) (posts st) = Some p \<and>
                    find (\<lambda>q. p_id q = j) (posts (snd (handle E st c))) = Some p'
            \<longrightarrow> p_user p' = p_user p))"
proof (intro conjI allI impI)
  fix res st'
  assume "update_post E st now req = (res, st') \<and> status res = 200"
  then have u: "update_post E st now req = (res, st')" and s: "status res = 200" by simp_all
  from u s show "\<exists>post t c. Post_findById E st (params_id req) = Inr (Some post) \<and>
           cast_string E (field (req_body req) ''title'') = Some (JStr t) \<and> t \<noteq> [] \<and>
           cast_string E (field (req_body req) ''content'') = Some (JStr c) \<and> c \<noteq> [] \<and>
           (\<forall>s. field (req_body req) ''title'' = JStr s \<longrightarrow> t = s) \<and>
           (\<forall>s. field (req_body req) ''content'' = JStr s \<longrightarrow> c = s) \<and>
           Post_findById E st' (params_id req) =
             Inr (Some (post\<lparr>p_title := JStr t, p_content := JStr c\<rparr>)) \<and>
           (\<forall>i. castObjectId E (JStr i) \<noteq> castObjectId E (JStr (params_id req)) \<longrightarrow>
                Post_findById E st' i = Post_findById E st i) \<and>
           (\<forall>j. j \<noteq> p_id post \<longrightarrow>
                find (\<lambda>q. p_id q = j) (posts st') = find (\<lambda>q. p_id q = j) (posts st)) \<and>
           (\<forall>q \<in> set (posts st). p_id q \<noteq> p_id post \<longrightarrow> q \<in> set (posts st')) \<and>
           map p_id (posts st') = map p_id (posts st) \<and> users st' = users st"
    by (rule update_frame_part)
next
  fix c i p p'
  assume "distinct (map p_id (posts st))"
    and "Post_findById E st i = Inr (Some p) \<and>
         Post_findById E (snd (handle E st c)) i = Inr (Some p')"
  then show "p_user p' = p_user p"
    using handle_owner_by_route [of st E i p c p'] by simp
next
  fix c j p p'
  assume "distinct (map p_id (posts st))"
    and "find (\<lambda>q. p_id q = j) (posts st) = Some p \<and>
         find (\<lambda>q. p_id q = j) (posts (snd (handle E st c))) = Some p'"
  then show "p_user p' = p_user p"
    using handle_owner [of st j p E c p'] by simp
qed

text \<open>Two posts with counters; the owner updates the first one, and a like of it keeps its
  owner.\<close>

theorem update_frame_witness:
  "update_post demo_env
      \<lparr>users = [],
       posts = [\<lparr>p_id = post1_id, p_title = JStr ''hello'', p_content = JStr ''world'',
                 p_user = JOid ann_id, p_likes = 4, p_dislikes = 2\<rparr>,
                \<lparr>p_id = post2_id, p_title = JStr ''other'', p_content = JStr ''post'',
                 p_user = JOid bob_id, p_likes = 0, p_dislikes = 0\<rparr>]\<rparr> 5
      (json_request (Some ann_bearer) post1_id
         [(''title'', JStr ''new''), (''content'', JStr ''text'')]) =
     (Response 200 (Text ''Post updated successfully''),
      \<lparr>users = [],
       posts = [\<lparr>p_id = post1_id, p_title = JStr ''new'', p_content = JStr ''text'',
                 p_user = JOid ann_id, p_likes = 4, p_dislikes = 2\<rparr>,
                \<lparr>p_id = post2_id, p_title = JStr ''other'', p_content = JStr ''post'',
                 p_user = JOid bob_id, p_likes = 0, p_dislikes = 0\<rparr>]\<rparr>)
   \<and> (\<exists>post. Post_findById demo_env
          \<lparr>users = [],
           posts = [\<lparr>p_id = post1_id, p_title = JStr ''hello'', p_content = JStr ''world'',
                     p_user = JOid ann_id, p_likes = 4, p_dislikes = 2\<rparr>,
                    \<lparr>p_id = post2_id, p_title = JStr ''other'', p_content = JStr ''post'',
                     p_user = JOid bob_id, p_likes = 0, p_dislikes = 0\<rparr>]\<rparr> post1_id =
            Inr (Some post) \<and>
        Post_findById demo_env
          \<lparr>users = [],
           posts = [\<lparr>p_id = post1_id, p_title = JStr ''new'', p_content = JStr ''text'',
                     p_user = JOid ann_id, p_likes = 4, p_dislikes = 2\<rparr>,
                    \<lparr>p_id = post2_id, p_title = JStr ''other'', p_content = JStr ''post'',
                     p_user = JOid bob_id, p_likes = 0, p_dislikes = 0\<rparr>]\<rparr> post1_id =
          Inr (Some (post\<lparr>p_title := JStr ''new'', p_content := JStr ''text''\<rparr>)))
   \<and> map_option p_user
        (projr (Post_findById demo_env
          (snd (handle demo_env
             \<lparr>users = [],
              posts = [\<lparr>p_id = post1_id, p_title = JStr ''hello'', p_content = JStr ''world'',
                        p_user = JOid ann_id, p_likes = 4, p_dislikes = 2\<rparr>,
                       \<lparr>p_id = post2_id, p_title = JStr ''other'', p_content = JStr ''post'',
                        p_user = JOid bob_id, p_likes = 0, p_dislikes = 0\<rparr>]\<rparr>
             (6, Like (json_request None post1_id [])))) post1_id)) = Some (JOid ann_id)"
proof -
  let ?p1 = "\<lparr>p_id = post1_id, p_title = JStr ''hello'', p_content = JStr ''world'',
                 p_user = JOid ann_id, p_likes = 4, p_dislikes = 2\<rparr>"
  let ?p2 = "\<lparr>p_id = post2_id, p_title = JStr ''other'', p_content = JStr ''post'',
                 p_user = JOid bob_id, p_likes = 0, p_dislikes = 0\<rparr>"
  let ?st = "\<lparr>users = [], posts = [?p1, ?p2]\<rparr>"
  let ?st' = "\<lparr>users = [], posts = [?p1\<lparr>p_title := JStr ''new'', p_content := JStr ''text''\<rparr>, ?p2]\<rparr>"
  let ?req = "json_request (Some ann_bearer) post1_id
         [(''title'', JStr ''new''), (''content'', JStr ''text'')]"
  let ?like = "(6 :: nat, Like (json_request None post1_id []))"
  note aa = demo_authenticated(1) [of post1_id "[(''title'', JStr ''new''), (''content'', JStr ''text'')]"]
  have e: "update_post demo_env ?st 5 ?req = (Response 200 (Text ''Post updated successfully''), ?st')
           \<and> status (Response 200 (Text ''Post updated successfully'')) = 200"
    unfolding update_post_def aa by (simp add: route_defs)
  have pid: "params_id ?req = post1_id" "field (req_body ?req) ''title'' = JStr ''new''"
    "field (req_body ?req) ''content'' = JStr ''text''"
    by (simp_all add: json_request_def field_def)
  from update_frame [of demo_env ?st 5 ?req] e
  obtain post t c where
    f: "Post_findById demo_env ?st (params_id ?req) = Inr (Some post)"
    and t: "\<forall>s. field (req_body ?req) ''title'' = JStr s \<longrightarrow> t = s"
    and c: "\<forall>s. field (req_body ?req) ''content'' = JStr s \<longrightarrow> c = s"
    and f': "Post_findById demo_env ?st' (params_id ?req) =
             Inr (Some (post\<lparr>p_title := JStr t, p_content := JStr c\<rparr>))"
    by blast
  from t c pid have "t = ''new''" "c = ''text''" by simp_all
  with f f' pid have frame: "\<exists>post. Post_findById demo_env ?st post1_id = Inr (Some post) \<and>
           Post_findById demo_env ?st' post1_id =
             Inr (Some (post\<lparr>p_title := JStr ''new'', p_content := JStr ''text''\<rparr>))"
    by auto
  have d: "distinct (map p_id (posts ?st))" by simp
  have l: "Post_findById demo_env ?st post1_id = Inr (Some ?p1)" by (simp add: Post_findById_def)
  have l': "Post_findById demo_env (snd (handle demo_env ?st ?like)) post1_id =
              Inr (Some (?p1\<lparr>p_likes := 5\<rparr>))"
    by (simp add: like_post_def plus_one_def route_defs)
  from update_frame [of demo_env ?st 5 ?req] d l l'
  have "p_user (?p1\<lparr>p_likes := 5\<rparr>) = p_user ?p1" by blast
  with l' have own: "map_option p_user
      (projr (Post_findById demo_env (snd (handle demo_env ?st ?like)) post1_id)) = Some (JOid ann_id)"
    by simp
  from e frame own show ?thesis by simp
qed

lemma gives_text_plain:
  "gives_text E (JStr s) = (s \<noteq> [])" "\<not> gives_text E JUndefined" "\<not> gives_text E JNull"
  by (simp_all add: gives_text_def cast_string_def nonempty_string_def)

text \<open>
  C6. Every stored post has a non-empty string as title and as content: each call of
  each route keeps this, so it holds after any sequence of calls from the empty
  database; and a create or an update whose title or content is empty or missing, or
  more generally does not give a non-empty string when it is set on a path of type
  String, stores nothing and is not answered with success. (A string gives itself,
  \<^verbatim>\<open>undefined\<close> and \<^verbatim>\<open>null\<close> give no string.)
\<close>

theorem posts_keep_title_and_content:
  "(posts_ok st \<longrightarrow> posts_ok (snd (handle E st c)))
   \<and> posts_ok (snd (run E init_store cs))
   \<and> (\<not> gives_text E (field (req_body req) ''title'') \<or>
       \<not> gives_text E (field (req_body req) ''content'') \<longrightarrow>
        snd (create_post E st now new_id req) = st \<and>
        status (fst (create_post E st now new_id req)) \<noteq> 201 \<and>
        snd (update_post E st now req) = st \<and>
        status (fst (update_post E st now req)) \<noteq> 200)
   \<and> (absent_or_empty (field (req_body req) ''title'') \<or>
       absent_or_empty (field (req_body req) ''content'') \<longrightarrow>
        snd (create_post E st now new_id req) = st \<and>
        status (fst (create_post E st now new_id req)) \<noteq> 201 \<and>
        snd (update_post E st now req) = st \<and>
        status (fst (update_post E st now req)) \<noteq> 200)
   \<and> (\<forall>s. gives_text E (JStr s) = nonempty_string (JStr s))
   \<and> \<not> gives_text E JUndefined \<and> \<not> gives_text E JNull"
proof (intro conjI impI allI)
  assume "posts_ok st"
  then show "posts_ok (snd (handle E st c))" by (rule handle_posts_ok)
next
  have "posts_ok init_store" by (simp add: posts_ok_def init_store_def)
  then show "posts_ok (snd (run E init_store cs))"
    by (rule run_invariant) (rule handle_posts_ok)
next
  assume a: "\<not> gives_text E (field (req_body req) ''title'') \<or>
       \<not> gives_text E (field (req_body req) ''content'')"
  from create_post_rejects [OF a]
  show "snd (create_post E st now new_id req) = st"
    and "status (fst (create_post E st now new_id req)) \<noteq> 201" by simp_all
  from update_post_rejects [OF a]
  show "snd (update_post E st now req) = st"
    and "status (fst (update_post E st now req)) \<noteq> 200" by simp_all
next
  assume "absent_or_empty (field (req_body req) ''title'') \<or>
       absent_or_empty (field (req_body req) ''content'')"
  then have a: "\<not> gives_text E (field (req_body req) ''title'') \<or>
       \<not> gives_text E (field (req_body req) ''content'')"
    using absent_gives_no_text by blast
  from create_post_rejects [OF a]
  show "snd (create_post E st now new_id req) = st"
    and "status (fst (create_post E st now new_id req)) \<noteq> 201" by simp_all
  from update_post_rejects [OF a]
  show "snd (update_post E st now req) = st"
    and "status (fst (update_post E st now req)) \<noteq> 200" by simp_all
next
  fix s show "gives_text E (JStr s) = nonempty_string (JStr s)"
    by (simp add: gives_text_plain nonempty_string_def)
next
  show "\<not> gives_text E JUndefined" by (rule gives_text_plain)
next
  show "\<not> gives_text E JNull" by (rule gives_text_plain)
qed

text \<open>An update and two creations keep the invariant; a creation with an empty title, one
  whose title is an array, and an update without content are answered 500 and store
  nothing; a creation whose title is the number 7 stores the string \<^verbatim>\<open>7\<close>.\<close>

theorem posts_keep_title_and_content_witness:
  "posts_ok \<lparr>users = [],
             posts = [\<lparr>p_id = post1_id, p_title = JStr ''hello'', p_content = JStr ''world'',
                       p_user = JOid ann_id, p_likes = 0, p_dislikes = 0\<rparr>]\<rparr>
   \<and> posts_ok (snd (handle demo_env
         \<lparr>users = [],
          posts = [\<lparr>p_id = post1_id, p_title = JStr ''hello'', p_content = JStr ''world'',
                    p_user = JOid ann_id, p_likes = 0, p_dislikes = 0\<rparr>]\<rparr>
         (5, UpdatePost (json_request (Some ann_bearer) post1_id
               [(''title'', JStr ''new''), (''content'', JStr ''text'')]))))
   \<and> posts_ok (snd (run demo_env init_store
         [(1, CreatePost post1_id (json_request (Some ann_bearer) []
                [(''title'', JStr ''hello''), (''content'', JStr ''world'')])),
          (2, CreatePost post2_id (json_request (Some ann_bearer) []
                [(''title'', JStr ''no content'')]))]))
   \<and> create_post demo_env init_store 5 post1_id
         (json_request (Some ann_bearer) []
            [(''title'', JStr []), (''content'', JStr ''world'')]) =
       (Response 500 (ErrorMessage (ValidationError [''title''])), init_store)
   \<and> create_post demo_env init_store 5 post1_id
         (json_request (Some ann_bearer) []
            [(''title'', JArr [JStr ''a'', JStr ''b'']), (''content'', JStr ''world'')]) =
       (Response 500 (ErrorMessage (ValidationError [''title''])), init_store)
   \<and> update_post demo_env
         \<lparr>users = [],
          posts = [\<lparr>p_id = post1_id, p_title = JStr ''hello'', p_content = JStr ''world'',
                    p_user = JOid ann_id, p_likes = 0, p_dislikes = 0\<rparr>]\<rparr> 5
         (json_request (Some ann_bearer) post1_id [(''title'', JStr ''new'')]) =
       (Response 500 (ErrorMessage (ValidationError [''content''])),
        \<lparr>users = [],
          posts = [\<lparr>p_id = post1_id, p_title = JStr ''hello'', p_content = JStr ''world'',
                    p_user = JOid ann_id, p_likes = 0, p_dislikes = 0\<rparr>]\<rparr>)
   \<and> create_post demo_env init_store 5 post1_id
         (json_request (Some ann_bearer) []
            [(''title'', JNum 7), (''content'', JStr ''world'')]) =
       (Response 201 (Text ''Post created successfully''),
        \<lparr>users = [],
          posts = [\<lparr>p_id = post1_id, p_title = JStr ''7'', p_content = JStr ''world'',
                    p_user = JOid ann_id, p_likes = 0, p_dislikes = 0\<rparr>]\<rparr>)"
proof -
  let ?p1 = "\<lparr>p_id = post1_id, p_title = JStr ''hello'', p_content = JStr ''world'',
                 p_user = JOid ann_id, p_likes = 0, p_dislikes = 0\<rparr>"
  let ?st = "\<lparr>users = [], posts = [?p1]\<rparr>"
  let ?upd = "(5 :: nat, UpdatePost (json_request (Some ann_bearer) post1_id
               [(''title'', JStr ''new''), (''content'', JStr ''text'')]))"
  let ?cs = "[(1 :: nat, CreatePost post1_id (json_request (Some ann_bearer) []
                [(''title'', JStr ''hello''), (''content'', JStr ''world'')])),
          (2, CreatePost post2_id (json_request (Some ann_bearer) []
                [(''title'', JStr ''no content'')]))]"
  let ?bad = "json_request (Some ann_bearer) []
            [(''title'', JStr []), (''content'', JStr ''world'')]"
  let ?arr = "json_request (Some ann_bearer) []
            [(''title'', JArr [JStr ''a'', JStr ''b'']), (''content'', JStr ''world'')]"
  let ?bad' = "json_request (Some ann_bearer) post1_id [(''title'', JStr ''new'')]"
  note aa = demo_authenticated(1)
  have ok: "posts_ok ?st" by (simp add: posts_ok_def nonempty_string_def)
  from posts_keep_title_and_content [where st = ?st and E = demo_env and c = ?upd] ok
  have a: "posts_ok (snd (handle demo_env ?st ?upd))" by blast
  from posts_keep_title_and_content [where E = demo_env and cs = ?cs]
  have b: "posts_ok (snd (run demo_env init_store ?cs))" by blast
  have h1: "absent_or_empty (field (req_body ?bad) ''title'')"
    by (simp add: absent_or_empty_def field_def json_request_def)
  have h2: "absent_or_empty (field (req_body ?bad') ''content'')"
    by (simp add: absent_or_empty_def field_def json_request_def)
  have h3: "\<not> gives_text demo_env (field (req_body ?arr) ''title'')"
    by (simp add: gives_text_def cast_string_def field_def json_request_def demo_castString_def)
  from posts_keep_title_and_content [where st = init_store and E = demo_env and req = ?bad
      and now = 5 and new_id = post1_id] h1
  have c: "snd (create_post demo_env init_store 5 post1_id ?bad) = init_store" by blast
  have c': "fst (create_post demo_env init_store 5 post1_id ?bad) =
              Response 500 (ErrorMessage (ValidationError [''title'']))"
    unfolding create_post_def aa by (simp add: route_defs)
  from posts_keep_title_and_content [where st = init_store and E = demo_env and req = ?arr
      and now = 5 and new_id = post1_id] h3
  have g: "snd (create_post demo_env init_store 5 post1_id ?arr) = init_store" by blast
  have g': "fst (create_post demo_env init_store 5 post1_id ?arr) =
              Response 500 (ErrorMessage (ValidationError [''title'']))"
    unfolding create_post_def aa
    by (simp add: route_defs demo_castString_def)
  from posts_keep_title_and_content [where st = ?st and E = demo_env and req = ?bad' and now = 5] h2
  have d: "snd (update_post demo_env ?st 5 ?bad') = ?st" by blast
  have d': "fst (update_post demo_env ?st 5 ?bad') =
              Response 500 (ErrorMessage (ValidationError [''content'']))"
    unfolding update_post_def aa by (simp add: route_defs)
  from c c' have C: "create_post demo_env init_store 5 post1_id ?bad =
       (Response 500 (ErrorMessage (ValidationError [''title''])), init_store)"
    by (simp add: prod_eq_iff)
  from g g' have G: "create_post demo_env init_store 5 post1_id ?arr =
       (Response 500 (ErrorMessage (ValidationError [''title''])), init_store)"
    by (simp add: prod_eq_iff)
  from d d' have D: "update_post demo_env ?st 5 ?bad' =
       (Response 500 (ErrorMessage (ValidationError [''content''])), ?st)"
    by (simp add: prod_eq_iff)
  have N: "create_post demo_env init_store 5 post1_id
         (json_request (Some ann_bearer) []
            [(''title'', JNum 7), (''content'', JStr ''world'')]) =
       (Response 201 (Text ''Post created successfully''),
        \<lparr>users = [],
          posts = [\<lparr>p_id = post1_id, p_title = JStr ''7'', p_content = JStr ''world'',
                    p_user = JOid ann_id, p_likes = 0, p_dislikes = 0\<rparr>]\<rparr>)"
    unfolding create_post_def aa by (simp add: route_defs demo_castString_def)
  from ok a b C G D N show ?thesis by blast
qed

section \<open>Reactions\<close>


















section \<open>The public list\<close>

lemma find_public:
  assumes "map (\<lambda>u. (u_id u, u_username u)) xs = map (\<lambda>u. (u_id u, u_username u)) ys"
  shows "map_option (\<lambda>u. (u_id u, u_username u)) (find (\<lambda>u. JOid (u_id u) = v) xs) =
         map_option (\<lambda>u. (u_id u, u_username u)) (find (\<lambda>u. JOid (u_id u) = v) ys)"
  using assms
proof (induction xs arbitrary: ys)
  case Nil
  then show ?case by simp
next
  case (Cons x xs)
  then obtain y ys' where ys: "ys = y # ys'" by (cases ys) auto
  with Cons.prems have h: "u_id x = u_id y" "u_username x = u_username y"
    and t: "map (\<lambda>u. (u_id u, u_username u)) xs = map (\<lambda>u. (u_id u, u_username u)) ys'"
    by simp_all
  from Cons.IH [OF t] h ys show ?case by simp
qed

lemma populate_public:
  assumes "public_users st' = public_users st"
  shows "populate st' p = populate st p"
proof -
  let ?f = "\<lambda>u. (u_id u, u_username u)"
  let ?a = "find (\<lambda>u. JOid (u_id u) = p_user p) (users st')"
  let ?b = "find (\<lambda>u. JOid (u_id u) = p_user p) (users st)"
  have "map_option ?f ?a = map_option ?f ?b"
    using assms unfolding public_users_def by (rule find_public)
  then have "(case ?a of None \<Rightarrow> None | Some u \<Rightarrow> Some \<lparr>pop_id = u_id u, pop_username = u_username u\<rparr>) =
             (case ?b of None \<Rightarrow> None | Some u \<Rightarrow> Some \<lparr>pop_id = u_id u, pop_username = u_username u\<rparr>)"
    by (cases ?a; cases ?b) auto
  then show ?thesis by (simp add: populate_def)
qed

text \<open>
  C9. The answer of \<^verbatim>\<open>GET /posts\<close> does not depend on any stored password hash: two
  databases with the same posts whose users agree on \<^verbatim>\<open>_id\<close> and \<^verbatim>\<open>username\<close>, position by
  position, get the same response. (The populated owner carries the \<^verbatim>\<open>_id\<close> and the
  \<^verbatim>\<open>username\<close> only.)
\<close>

theorem list_posts_hides_passwords:
  assumes "posts st' = posts st" and "public_users st' = public_users st"
  shows "list_posts st' = list_posts st"
  using assms populate_public [OF assms(2)] by (simp add: list_posts_def)

text \<open>Two databases that differ in the password hash of the one user.\<close>

theorem list_posts_hides_passwords_witness:
  "list_posts \<lparr>users = [\<lparr>u_id = ann_id, u_username = JStr ''ann'', u_password = JStr ''#pw1''\<rparr>],
              posts = [\<lparr>p_id = post1_id, p_title = JStr ''hello'', p_content = JStr ''world'',
                        p_user = JOid ann_id, p_likes = 0, p_dislikes = 0\<rparr>]\<rparr> =
   list_posts \<lparr>users = [\<lparr>u_id = ann_id, u_username = JStr ''ann'', u_password = JStr ''#other''\<rparr>],
              posts = [\<lparr>p_id = post1_id, p_title = JStr ''hello'', p_content = JStr ''world'',
                        p_user = JOid ann_id, p_likes = 0, p_dislikes = 0\<rparr>]\<rparr>
   \<and> list_posts \<lparr>users = [\<lparr>u_id = ann_id, u_username = JStr ''ann'', u_password = JStr ''#other''\<rparr>],
              posts = [\<lparr>p_id = post1_id, p_title = JStr ''hello'', p_content = JStr ''world'',
                        p_user = JOid ann_id, p_likes = 0, p_dislikes = 0\<rparr>]\<rparr> =
     Response 200 (Json [\<lparr>j_id = post1_id, j_title = JStr ''hello'', j_content = JStr ''world'',
                           j_user = Some \<lparr>pop_id = ann_id, pop_username = JStr ''ann''\<rparr>,
                           j_likes = 0, j_dislikes = 0\<rparr>])"
proof -
  let ?p = "\<lparr>p_id = post1_id, p_title = JStr ''hello'', p_content = JStr ''world'',
                        p_user = JOid ann_id, p_likes = 0, p_dislikes = 0\<rparr>"
  let ?a = "\<lparr>users = [\<lparr>u_id = ann_id, u_username = JStr ''ann'', u_password = JStr ''#pw1''\<rparr>], posts = [?p]\<rparr>"
  let ?b = "\<lparr>users = [\<lparr>u_id = ann_id, u_username = JStr ''ann'', u_password = JStr ''#other''\<rparr>], posts = [?p]\<rparr>"
  have 1: "posts ?a = posts ?b" by simp
  have 2: "public_users ?a = public_users ?b" by (simp add: public_users_def)
  have 3: "list_posts ?b = Response 200 (Json [\<lparr>j_id = post1_id, j_title = JStr ''hello'', j_content = JStr ''world'',
                           j_user = Some \<lparr>pop_id = ann_id, pop_username = JStr ''ann''\<rparr>,
                           j_likes = 0, j_dislikes = 0\<rparr>])"
    by (simp add: list_posts_def populate_def)
  from list_posts_hides_passwords [OF 1 2] 3 show ?thesis by simp
qed

section \<open>Accounts\<close>

lemma login_invalid:
  assumes "\<not> truthy (field (req_body req) ''username'') \<or> \<not> truthy (field (req_body req) ''password'')"
  shows "login E st now req = Response 400 (Text ''Username and password are required'')"
  using assms by (simp add: login_def Let_def)

lemma login_lookup:
  assumes "truthy (field (req_body req) ''username'')" and "truthy (field (req_body req) ''password'')"
  shows "login E st now req =
           (case User_findOne E st (field (req_body req) ''username'') of
              Inl e \<Rightarrow> Response 500 (ErrorMessage e)
            | Inr None \<Rightarrow> Response 404 (Text ''User not found'')
            | Inr (Some user) \<Rightarrow>
                (case compare_js E (field (req_body req) ''password'') (u_password user) of
                   Inl e \<Rightarrow> Response 500 (ErrorMessage e)
                 | Inr validPassword \<Rightarrow>
                     if validPassword
                     then Response 200 (TokenBody
                            (jwt_sign E [(''userId'', JOid (u_id user)), (''username'', u_username user)]
                               (JWT_SECRET E) ''1h'' now))
                     else Response 401 (Text ''Invalid password'')))"
  using assms by (simp add: login_def Let_def split: sum.splits option.splits)

lemma compare_js_throws:
  "(\<forall>q. password \<noteq> JStr q) \<or> (\<forall>h. hashed \<noteq> JStr h) \<Longrightarrow>
     compare_js E password hashed = Inl BcryptError"
  by (cases password; cases hashed) (auto simp: compare_js_def)

lemma login_found:
  assumes "truthy (field (req_body req) ''username'')" and "truthy (field (req_body req) ''password'')"
      and "User_findOne E st (field (req_body req) ''username'') = Inr (Some user)"
      and "field (req_body req) ''password'' = JStr q" and "u_password user = JStr h"
  shows "login E st now req =
           (if bcrypt_compare E (take 72 q) h
            then Response 200 (TokenBody
                   (jwt_sign E [(''userId'', JOid (u_id user)), (''username'', u_username user)]
                      (JWT_SECRET E) ''1h'' now))
            else Response 401 (Text ''Invalid password''))"
  using assms(3-5) by (simp add: login_lookup [OF assms(1,2)] compare_js_def)

lemma find_Some_holds: "find P xs = Some x \<Longrightarrow> P x"
  by (induction xs) (auto split: if_splits)

lemma findOne_string:
  "User_findOne E st (JStr s) = Inr (find (\<lambda>u. u_username u = JStr s) (users st))"
  by (simp add: User_findOne_def query_string_def)

text \<open>
  C4. \<^verbatim>\<open>POST /login\<close> answers 400 when the username or the password is empty or
  missing (falsy). Otherwise it looks the user up: 500 when the lookup throws, 404 when
  it finds no user, which for a string is when no stored user has that username. For
  the user found, 500 when the password of the request or the stored hash is not a
  string, since \<^verbatim>\<open>bcrypt.compare\<close> throws; 401 when \<^verbatim>\<open>bcrypt.compare\<close> of the password
  with the stored hash is false; and when it is true 200 with the token that \<^verbatim>\<open>jwt.sign\<close>
  makes, at the clock of the call, of the payload \<^verbatim>\<open>{userId, username}\<close> of that user,
  the configured secret and \<^verbatim>\<open>expiresIn: '1h'\<close>.
\<close>

theorem login_outcomes:
  "(\<not> truthy (field (req_body req) ''username'') \<or> \<not> truthy (field (req_body req) ''password'') \<longrightarrow>
       login E st now req = Response 400 (Text ''Username and password are required''))
   \<and> (truthy (field (req_body req) ''username'') \<and> truthy (field (req_body req) ''password'') \<longrightarrow>
       (\<forall>e. User_findOne E st (field (req_body req) ''username'') = Inl e \<longrightarrow>
          login E st now req = Response 500 (ErrorMessage e))
     \<and> (User_findOne E st (field (req_body req) ''username'') = Inr None \<longrightarrow>
          login E st now req = Response 404 (Text ''User not found''))
     \<and> (\<forall>s. field (req_body req) ''username'' = JStr s \<and> JStr s \<notin> set (usernames st) \<longrightarrow>
          login E st now req = Response 404 (Text ''User not found''))
     \<and> (\<forall>user. User_findOne E st (field (req_body req) ''username'') = Inr (Some user) \<longrightarrow>
          (\<forall>s. field (req_body req) ''username'' = JStr s \<longrightarrow>
             u_username user = JStr s \<and> user \<in> set (users st))
        \<and> ((\<forall>q. field (req_body req) ''password'' \<noteq> JStr q) \<or> (\<forall>h. u_password user \<noteq> JStr h) \<longrightarrow>
              login E st now req = Response 500 (ErrorMessage BcryptError))
        \<and> (\<forall>q h. field (req_body req) ''password'' = JStr q \<and> u_password user = JStr h \<longrightarrow>
              (\<not> bcrypt_compare E (take 72 q) h \<longrightarrow>
                 login E st now req = Response 401 (Text ''Invalid password''))
            \<and> (bcrypt_compare E (take 72 q) h \<longrightarrow>
                 login E st now req =
                   Response 200 (TokenBody
                     (jwt_sign E [(''userId'', JOid (u_id user)), (''username'', u_username user)]
                        (JWT_SECRET E) ''1h'' now))))))"
proof (intro conjI impI allI)
  assume "\<not> truthy (field (req_body req) ''username'') \<or> \<not> truthy (field (req_body req) ''password'')"
  then show "login E st now req = Response 400 (Text ''Username and password are required'')"
    by (rule login_invalid)
next
  fix e
  assume "truthy (field (req_body req) ''username'') \<and> truthy (field (req_body req) ''password'')"
    and "User_findOne E st (field (req_body req) ''username'') = Inl e"
  then show "login E st now req = Response 500 (ErrorMessage e)"
    by (simp add: login_lookup)
next
  assume "truthy (field (req_body req) ''username'') \<and> truthy (field (req_body req) ''password'')"
    and "User_findOne E st (field (req_body req) ''username'') = Inr None"
  then show "login E st now req = Response 404 (Text ''User not found'')"
    by (simp add: login_lookup)
next
  fix s
  assume t: "truthy (field (req_body req) ''username'') \<and> truthy (field (req_body req) ''password'')"
    and "field (req_body req) ''username'' = JStr s \<and> JStr s \<notin> set (usernames st)"
  then have u: "field (req_body req) ''username'' = JStr s"
    and "\<forall>w \<in> set (users st). u_username w \<noteq> JStr s"
    by (force simp: usernames_def)+
  then have "find (\<lambda>w. u_username w = JStr s) (users st) = None"
    by (simp add: find_None_iff)
  with u have "User_findOne E st (field (req_body req) ''username'') = Inr None"
    by (simp add: findOne_string)
  with t show "login E st now req = Response 404 (Text ''User not found'')"
    by (simp add: login_lookup)
next
  fix user s
  assume "User_findOne E st (field (req_body req) ''username'') = Inr (Some user)"
    and "field (req_body req) ''username'' = JStr s"
  then have f: "find (\<lambda>u. u_username u = JStr s) (users st) = Some user"
    by (simp add: findOne_string)
  from find_Some_holds [OF f] show "u_username user = JStr s" .
  from find_in_set [OF f] show "user \<in> set (users st)" .
next
  fix user
  assume t: "truthy (field (req_body req) ''username'') \<and> truthy (field (req_body req) ''password'')"
    and f: "User_findOne E st (field (req_body req) ''username'') = Inr (Some user)"
    and n: "(\<forall>q. field (req_body req) ''password'' \<noteq> JStr q) \<or> (\<forall>h. u_password user \<noteq> JStr h)"
  from compare_js_throws [OF n] t f
  show "login E st now req = Response 500 (ErrorMessage BcryptError)"
    by (simp add: login_lookup)
next
  fix user q h
  assume "truthy (field (req_body req) ''username'') \<and> truthy (field (req_body req) ''password'')"
    and "User_findOne E st (field (req_body req) ''username'') = Inr (Some user)"
    and "field (req_body req) ''password'' = JStr q \<and> u_password user = JStr h"
    and "\<not> bcrypt_compare E (take 72 q) h"
  then show "login E st now req = Response 401 (Text ''Invalid password'')"
    using login_found [of req E st user q h now] by simp
next
  fix user q h
  assume "truthy (field (req_body req) ''username'') \<and> truthy (field (req_body req) ''password'')"
    and "User_findOne E st (field (req_body req) ''username'') = Inr (Some user)"
    and "field (req_body req) ''password'' = JStr q \<and> u_password user = JStr h"
    and "bcrypt_compare E (take 72 q) h"
  then show "login E st now req =
                Response 200 (TokenBody
                  (jwt_sign E [(''userId'', JOid (u_id user)), (''username'', u_username user)]
                     (JWT_SECRET E) ''1h'' now))"
    using login_found [of req E st user q h now] by simp
qed

text \<open>The claim as it is written lists four outcomes. With the user \<^verbatim>\<open>ann\<close> stored, a login
  for \<^verbatim>\<open>ann\<close> whose password is the number 123 is answered 500: \<^verbatim>\<open>bcrypt.compare\<close> throws on
  a password that is not a string.\<close>

theorem login_counterexample:
  "login demo_env
      \<lparr>users = [\<lparr>u_id = ann_id, u_username = JStr ''ann'', u_password = JStr ''#pw1''\<rparr>], posts = []\<rparr> 7
      (json_request None [] [(''username'', JStr ''ann''), (''password'', JNum 123)]) =
     Response 500 (ErrorMessage BcryptError)"
  by (simp add: login_def route_defs)

text \<open>One user: a login without password, for an unknown name, with a wrong password,
  with the right one, with a password that is a number, and with a query operator in
  the place of the username, which finds the user.\<close>

theorem login_outcomes_witness:
  "login demo_env
      \<lparr>users = [\<lparr>u_id = ann_id, u_username = JStr ''ann'', u_password = JStr ''#pw1''\<rparr>], posts = []\<rparr> 7
      (json_request None [] [(''username'', JStr ''ann'')]) =
     Response 400 (Text ''Username and password are required'')
   \<and> login demo_env
      \<lparr>users = [\<lparr>u_id = ann_id, u_username = JStr ''ann'', u_password = JStr ''#pw1''\<rparr>], posts = []\<rparr> 7
      (json_request None [] [(''username'', JStr ''bob''), (''password'', JStr ''pw1'')]) =
     Response 404 (Text ''User not found'')
   \<and> login demo_env
      \<lparr>users = [\<lparr>u_id = ann_id, u_username = JStr ''ann'', u_password = JStr ''#pw1''\<rparr>], posts = []\<rparr> 7
      (json_request None [] [(''username'', JStr ''ann''), (''password'', JStr ''wrong'')]) =
     Response 401 (Text ''Invalid password'')
   \<and> login demo_env
      \<lparr>users = [\<lparr>u_id = ann_id, u_username = JStr ''ann'', u_password = JStr ''#pw1''\<rparr>], posts = []\<rparr> 7
      (json_request None [] [(''username'', JStr ''ann''), (''password'', JStr ''pw1'')]) =
     Response 200 (TokenBody
       (jwt_sign demo_env [(''userId'', JOid ann_id), (''username'', JStr ''ann'')] ''k'' ''1h'' 7))
   \<and> login demo_env
      \<lparr>users = [\<lparr>u_id = ann_id, u_username = JStr ''ann'', u_password = JStr ''#pw1''\<rparr>], posts = []\<rparr> 7
      (json_request None [] [(''username'', JStr ''ann''), (''password'', JBool True)]) =
     Response 500 (ErrorMessage BcryptError)
   \<and> login demo_env
      \<lparr>users = [\<lparr>u_id = ann_id, u_username = JStr ''ann'', u_password = JStr ''#pw1''\<rparr>], posts = []\<rparr> 7
      (json_request None [] [(''username'', JObj [(''$ne'', JStr [])]), (''password'', JStr ''pw1'')]) =
     Response 200 (TokenBody
       (jwt_sign demo_env [(''userId'', JOid ann_id), (''username'', JStr ''ann'')] ''k'' ''1h'' 7))"
proof -
  let ?u = "\<lparr>u_id = ann_id, u_username = JStr ''ann'', u_password = JStr ''#pw1''\<rparr>"
  let ?st = "\<lparr>users = [?u], posts = []\<rparr>"
  let ?r0 = "json_request None [] [(''username'', JStr ''ann'')]"
  let ?r1 = "json_request None [] [(''username'', JStr ''bob''), (''password'', JStr ''pw1'')]"
  let ?r2 = "json_request None [] [(''username'', JStr ''ann''), (''password'', JStr ''wrong'')]"
  let ?r3 = "json_request None [] [(''username'', JStr ''ann''), (''password'', JStr ''pw1'')]"
  let ?r4 = "json_request None [] [(''username'', JStr ''ann''), (''password'', JBool True)]"
  let ?r5 = "json_request None [] [(''username'', JObj [(''$ne'', JStr [])]), (''password'', JStr ''pw1'')]"
  have h0: "\<not> truthy (field (req_body ?r0) ''password'')"
    by (simp add: field_def json_request_def)
  have h1: "truthy (field (req_body ?r1) ''username'') \<and> truthy (field (req_body ?r1) ''password'')"
    "User_findOne demo_env ?st (field (req_body ?r1) ''username'') = Inr None"
    by (simp_all add: field_def json_request_def User_findOne_def query_string_def)
  have h2: "truthy (field (req_body ?r2) ''username'') \<and> truthy (field (req_body ?r2) ''password'')"
    "User_findOne demo_env ?st (field (req_body ?r2) ''username'') = Inr (Some ?u)"
    "field (req_body ?r2) ''password'' = JStr ''wrong'' \<and> u_password ?u = JStr ''#pw1''"
    "\<not> bcrypt_compare demo_env (take 72 ''wrong'') ''#pw1''"
    by (simp_all add: field_def json_request_def User_findOne_def query_string_def)
  have h3: "truthy (field (req_body ?r3) ''username'') \<and> truthy (field (req_body ?r3) ''password'')"
    "User_findOne demo_env ?st (field (req_body ?r3) ''username'') = Inr (Some ?u)"
    "field (req_body ?r3) ''password'' = JStr ''pw1'' \<and> u_password ?u = JStr ''#pw1''"
    "bcrypt_compare demo_env (take 72 ''pw1'') ''#pw1''"
    by (simp_all add: field_def json_request_def User_findOne_def query_string_def)
  have h4: "truthy (field (req_body ?r4) ''username'') \<and> truthy (field (req_body ?r4) ''password'')"
    "User_findOne demo_env ?st (field (req_body ?r4) ''username'') = Inr (Some ?u)"
    "\<forall>q. field (req_body ?r4) ''password'' \<noteq> JStr q"
    by (simp_all add: field_def json_request_def User_findOne_def query_string_def)
  have h5: "truthy (field (req_body ?r5) ''username'') \<and> truthy (field (req_body ?r5) ''password'')"
    "User_findOne demo_env ?st (field (req_body ?r5) ''username'') = Inr (Some ?u)"
    "field (req_body ?r5) ''password'' = JStr ''pw1'' \<and> u_password ?u = JStr ''#pw1''"
    by (simp_all add: field_def json_request_def User_findOne_def query_string_def
        demo_castString_def demo_user_query_def)
  from login_outcomes [where req = ?r0 and E = demo_env and st = ?st and now = 7] h0
  have a: "login demo_env ?st 7 ?r0 = Response 400 (Text ''Username and password are required'')"
    by blast
  from login_outcomes [where req = ?r1 and E = demo_env and st = ?st and now = 7] h1
  have b: "login demo_env ?st 7 ?r1 = Response 404 (Text ''User not found'')"
    by blast
  from login_outcomes [where req = ?r2 and E = demo_env and st = ?st and now = 7] h2
  have c: "login demo_env ?st 7 ?r2 = Response 401 (Text ''Invalid password'')"
    by blast
  from login_outcomes [where req = ?r3 and E = demo_env and st = ?st and now = 7] h3
  have "login demo_env ?st 7 ?r3 =
     Response 200 (TokenBody
       (jwt_sign demo_env [(''userId'', JOid (u_id ?u)), (''username'', u_username ?u)]
          (JWT_SECRET demo_env) ''1h'' 7))"
    by blast
  then have d: "login demo_env ?st 7 ?r3 =
     Response 200 (TokenBody
       (jwt_sign demo_env [(''userId'', JOid ann_id), (''username'', JStr ''ann'')] ''k'' ''1h'' 7))"
    by simp
  from login_outcomes [where req = ?r4 and E = demo_env and st = ?st and now = 7] h4
  have e: "login demo_env ?st 7 ?r4 = Response 500 (ErrorMessage BcryptError)"
    by blast
  from login_outcomes [where req = ?r5 and E = demo_env and st = ?st and now = 7] h3(4) h5
  have "login demo_env ?st 7 ?r5 =
     Response 200 (TokenBody
       (jwt_sign demo_env [(''userId'', JOid (u_id ?u)), (''username'', u_username ?u)]
          (JWT_SECRET demo_env) ''1h'' 7))"
    by blast
  then have f: "login demo_env ?st 7 ?r5 =
     Response 200 (TokenBody
       (jwt_sign demo_env [(''userId'', JOid ann_id), (''username'', JStr ''ann'')] ''k'' ''1h'' 7))"
    by simp
  from a b c d e f show ?thesis by blast
qed

section \<open>Registration\<close>

lemma signup_existing:
  assumes "User_findOne E st (field (req_body req) ''username'') = Inr (Some u)"
  shows "signup E st new_id salt req =
           (if \<not> truthy (field (req_body req) ''username'') \<or>
               \<not> truthy (field (req_body req) ''password'')
            then Response 400 (Text ''Username and password are required'')
            else Response 409 (Text ''Username already exists''), st)"
  using assms by (simp add: signup_def Let_def)

lemma findOne_cast:
  assumes "query_string E v = Some s"
  shows "User_findOne E st v = Inr (find (\<lambda>w. u_username w = JStr s) (users st))"
  using assms by (simp add: User_findOne_def)

lemma handle_users:
  "users (snd (handle E st c)) = users st \<or>
   (\<exists>u s. u_username u = JStr s \<and> find (\<lambda>w. u_username w = JStr s) (users st) = None \<and>
        users (snd (handle E st c)) = users st @ [u])"
proof -
  from handle_effect [of E st c] consider
      "snd (handle E st c) = st"
    | u s where "u_username u = JStr s" "find (\<lambda>w. u_username w = JStr s) (users st) = None"
        "snd (handle E st c) = st\<lparr>users := users st @ [u]\<rparr>"
    | p where "snd (handle E st c) = st\<lparr>posts := posts st @ [p]\<rparr>"
    | p' where "snd (handle E st c) = st\<lparr>posts := updateOne p' (posts st)\<rparr>"
    | i where "snd (handle E st c) = st\<lparr>posts := deleteOne i (posts st)\<rparr>"
    by blast
  then show ?thesis
  proof cases
    case 2
    then show ?thesis by auto
  qed simp_all
qed

lemma handle_keeps_user:
  assumes "find (\<lambda>w. u_username w = JStr s) (users st) = Some u"
  shows "find (\<lambda>w. u_username w = JStr s) (users (snd (handle E st c))) = Some u"
proof -
  from handle_users [of E st c] show ?thesis
  proof
    assume "users (snd (handle E st c)) = users st"
    with assms show ?thesis by simp
  next
    assume "\<exists>u s. u_username u = JStr s \<and> find (\<lambda>w. u_username w = JStr s) (users st) = None \<and>
        users (snd (handle E st c)) = users st @ [u]"
    then obtain w where "users (snd (handle E st c)) = users st @ [w]" by blast
    with assms show ?thesis by (simp add: find_snoc_Some)
  qed
qed

lemma run_keeps_user:
  assumes "find (\<lambda>w. u_username w = JStr s) (users st) = Some u"
  shows "find (\<lambda>w. u_username w = JStr s) (users (snd (run E st cs))) = Some u"
  using assms
proof (rule run_invariant [where P = "\<lambda>st. find (\<lambda>w. u_username w = JStr s) (users st) = Some u"])
  fix st :: store and c :: "nat \<times> call"
  assume "find (\<lambda>w. u_username w = JStr s) (users st) = Some u"
  then show "find (\<lambda>w. u_username w = JStr s) (users (snd (handle E st c))) = Some u"
    by (rule handle_keeps_user)
qed

lemma handle_distinct_usernames:
  assumes "distinct (usernames st)"
  shows "distinct (usernames (snd (handle E st c)))"
proof -
  from handle_users [of E st c] show ?thesis
  proof
    assume "users (snd (handle E st c)) = users st"
    with assms show ?thesis by (simp add: usernames_def)
  next
    assume "\<exists>u s. u_username u = JStr s \<and> find (\<lambda>w. u_username w = JStr s) (users st) = None \<and>
        users (snd (handle E st c)) = users st @ [u]"
    then obtain w s where n: "u_username w = JStr s"
      "find (\<lambda>w. u_username w = JStr s) (users st) = None"
      and a: "users (snd (handle E st c)) = users st @ [w]" by blast
    from n have "u_username w \<notin> set (usernames st)"
      by (auto simp: usernames_def find_None_iff)
    with assms a show ?thesis by (simp add: usernames_def)
  qed
qed

lemma no_second_creation:
  assumes "find (\<lambda>w. u_username w = JStr s) (users st) = Some u"
      and "query_string E v = Some s"
  shows "filter (created_as v) (zip cs (fst (run E st cs))) = []"
  using assms(1)
proof (induction cs arbitrary: st)
  case Nil
  then show ?case by simp
next
  case (Cons c cs)
  have rest: "filter (created_as v) (zip cs (fst (run E (snd (handle E st c)) cs))) = []"
    using Cons.IH [OF handle_keeps_user [OF Cons.prems]] .
  have head: "\<not> created_as v (c, fst (handle E st c))"
  proof (cases c)
    case (Pair now call)
    show ?thesis
    proof (cases call)
      case (Signup new_id salt req)
      show ?thesis
      proof (cases "field (req_body req) ''username'' = v")
        case True
        with Cons.prems findOne_cast [OF assms(2), of st]
        have "User_findOne E st (field (req_body req) ''username'') = Inr (Some u)" by simp
        from signup_existing [OF this, of new_id salt] Pair Signup show ?thesis by simp
      next
        case False
        with Pair Signup show ?thesis by simp
      qed
    qed (simp_all add: Pair)
  qed
  from head rest show ?case by (simp add: run_Cons_fst del: run.simps)
qed

lemma signup_then_found:
  assumes "status (fst (signup E st new_id salt req)) = 201"
  shows "\<exists>s p. query_string E (field (req_body req) ''username'') = Some s \<and>
           truthy (field (req_body req) ''username'') \<and>
           field (req_body req) ''password'' = JStr p \<and> p \<noteq> [] \<and>
           find (\<lambda>w. u_username w = JStr s) (users (snd (signup E st new_id salt req))) =
             Some \<lparr>u_id = new_id, u_username = JStr s,
                   u_password = JStr (bcrypt_hash E (take 72 p) 10 salt)\<rparr>"
proof -
  from assms have "snd (signup E st new_id salt req) \<noteq> st \<or>
                   status (fst (signup E st new_id salt req)) = 201" by simp
  from signup_saved [OF this] obtain s p where
    c: "cast_string E (field (req_body req) ''username'') = Some (JStr s)"
    and t: "truthy (field (req_body req) ''username'')"
    and p: "field (req_body req) ''password'' = JStr p" "p \<noteq> []"
    and n: "find (\<lambda>w. u_username w = JStr s) (users st) = None"
    and a: "signup E st new_id salt req =
             (Response 201 (Text ''User created successfully''),
              st\<lparr>users := users st @
                   [\<lparr>u_id = new_id, u_username = JStr s,
                     u_password = JStr (bcrypt_hash E (take 72 p) 10 salt)\<rparr>]\<rparr>)"
    by blast
  from n a have "find (\<lambda>w. u_username w = JStr s) (users (snd (signup E st new_id salt req))) =
             Some \<lparr>u_id = new_id, u_username = JStr s,
                   u_password = JStr (bcrypt_hash E (take 72 p) 10 salt)\<rparr>"
    by (simp add: find_snoc)
  with cast_query [OF c] t p show ?thesis by blast
qed

lemma one_creation:
  "length (filter (created_as v) (zip cs (fst (run E st cs)))) \<le> 1"
proof (induction cs arbitrary: st)
  case Nil
  then show ?case by simp
next
  case (Cons c cs)
  show ?case
  proof (cases "created_as v (c, fst (handle E st c))")
    case False
    with Cons.IH [of "snd (handle E st c)"] show ?thesis by (simp add: run_Cons_fst del: run.simps)
  next
    case True
    then obtain now new_id salt req where c: "c = (now, Signup new_id salt req)"
      and v: "field (req_body req) ''username'' = v"
      and s: "status (fst (signup E st new_id salt req)) = 201"
      by (cases c; cases "snd c") auto
    from signup_then_found [OF s] v c obtain s w where
      "query_string E v = Some s"
      "find (\<lambda>w. u_username w = JStr s) (users (snd (handle E st c))) = Some w"
      by auto
    from no_second_creation [OF this(2,1)] True show ?thesis
      by (simp add: run_Cons_fst del: run.simps)
  qed
qed

lemma signup_then_taken:
  assumes s: "status (fst (signup E st new_id salt req)) = 201"
  shows "\<exists>w. User_findOne E (snd (run E (snd (signup E st new_id salt req)) cs))
                (field (req_body req) ''username'') = Inr (Some w)"
proof -
  from signup_then_found [OF s] obtain s w where
    q: "query_string E (field (req_body req) ''username'') = Some s"
    and f: "find (\<lambda>w. u_username w = JStr s) (users (snd (signup E st new_id salt req))) = Some w"
    by blast
  from run_keeps_user [OF f, of E cs] findOne_cast [OF q] show ?thesis by simp
qed

text \<open>
  C3, as the handler has it. Every call of every route keeps the usernames of the stored
  users distinct, so they are distinct after any sequence of calls from the empty
  database; in any sequence of calls, from any database, at most one \<^verbatim>\<open>/signup\<close> for
  a given username is answered 201; and once a signup for a username was answered 201,
  every later signup for that username stores nothing and is answered 409 when its
  password is non-empty, and 400 when its password is empty or missing (the check of
  the two fields comes before the lookup).
\<close>

theorem signup_username_unique:
  "(distinct (usernames st) \<longrightarrow> distinct (usernames (snd (handle E st c))))
   \<and> distinct (usernames (snd (run E init_store cs)))
   \<and> length (filter (created_as v) (zip cs (fst (run E st cs)))) \<le> 1
   \<and> (\<forall>new_id salt req cs' new_id' salt' req'.
        status (fst (signup E st new_id salt req)) = 201 \<and>
        field (req_body req') ''username'' = field (req_body req) ''username'' \<longrightarrow>
        signup E (snd (run E (snd (signup E st new_id salt req)) cs')) new_id' salt' req' =
          (if truthy (field (req_body req') ''password'')
           then Response 409 (Text ''Username already exists'')
           else Response 400 (Text ''Username and password are required''),
           snd (run E (snd (signup E st new_id salt req)) cs')))"
proof (intro conjI impI allI)
  assume "distinct (usernames st)"
  then show "distinct (usernames (snd (handle E st c)))" by (rule handle_distinct_usernames)
next
  have "distinct (usernames init_store)" by (simp add: usernames_def init_store_def)
  then show "distinct (usernames (snd (run E init_store cs)))"
    by (rule run_invariant) (rule handle_distinct_usernames)
next
  show "length (filter (created_as v) (zip cs (fst (run E st cs)))) \<le> 1" by (rule one_creation)
next
  fix new_id salt cs' new_id' salt' and req req' :: request
  assume a: "status (fst (signup E st new_id salt req)) = 201 \<and>
        field (req_body req') ''username'' = field (req_body req) ''username''"
  then have s: "status (fst (signup E st new_id salt req)) = 201"
    and e: "field (req_body req') ''username'' = field (req_body req) ''username''" by simp_all
  let ?st = "snd (run E (snd (signup E st new_id salt req)) cs')"
  from signup_then_taken [OF s, of cs'] obtain w where
    "User_findOne E ?st (field (req_body req) ''username'') = Inr (Some w)" by blast
  with e have f: "User_findOne E ?st (field (req_body req') ''username'') = Inr (Some w)" by simp
  from signup_then_found [OF s] e have t: "truthy (field (req_body req') ''username'')" by auto
  have "signup E ?st new_id' salt' req' =
           (if \<not> truthy (field (req_body req') ''username'') \<or>
               \<not> truthy (field (req_body req') ''password'')
            then Response 400 (Text ''Username and password are required'')
            else Response 409 (Text ''Username already exists''), ?st)"
    using f by (rule signup_existing)
  with t show "signup E ?st new_id' salt' req' =
          (if truthy (field (req_body req') ''password'')
           then Response 409 (Text ''Username already exists'')
           else Response 400 (Text ''Username and password are required''), ?st)"
    by simp
qed

text \<open>The claim as it is written says 409 for every later signup with the same
  username. After \<^verbatim>\<open>alice\<close> has signed up, a signup for \<^verbatim>\<open>alice\<close> with an empty password
  is answered 400.\<close>

theorem second_signup_counterexample:
  "status (fst (signup demo_env init_store ann_id ''salt''
      (json_request None [] [(''username'', JStr ''alice''), (''password'', JStr ''pw1'')]))) = 201
   \<and> status (fst (signup demo_env
        (snd (signup demo_env init_store ann_id ''salt''
           (json_request None [] [(''username'', JStr ''alice''), (''password'', JStr ''pw1'')])))
        bob_id ''salt''
        (json_request None [] [(''username'', JStr ''alice''), (''password'', JStr [])]))) = 400"
  by (simp add: signup_def route_defs)

text \<open>Two signups for \<^verbatim>\<open>alice\<close> in a row are answered 201 and 409; a third one, after
  \<^verbatim>\<open>bob\<close> has signed up, is answered 409 and stores nothing.\<close>

theorem signup_username_unique_witness:
  "distinct (usernames \<lparr>users = [\<lparr>u_id = ann_id, u_username = JStr ''alice'', u_password = JStr ''#pw1''\<rparr>], posts = []\<rparr>)
   \<and> distinct (usernames (snd (handle demo_env
        \<lparr>users = [\<lparr>u_id = ann_id, u_username = JStr ''alice'', u_password = JStr ''#pw1''\<rparr>], posts = []\<rparr>
        (3, Signup bob_id ''salt'' (json_request None [] [(''username'', JStr ''bob''), (''password'', JStr ''pw2'')])))))
   \<and> fst (run demo_env init_store
        [(1, Signup ann_id ''salt'' (json_request None [] [(''username'', JStr ''alice''), (''password'', JStr ''pw1'')])),
         (2, Signup bob_id ''salt'' (json_request None [] [(''username'', JStr ''alice''), (''password'', JStr ''pw2'')]))]) =
       [Response 201 (Text ''User created successfully''), Response 409 (Text ''Username already exists'')]
   \<and> status (fst (signup demo_env init_store ann_id ''salt''
        (json_request None [] [(''username'', JStr ''alice''), (''password'', JStr ''pw1'')]))) = 201
   \<and> signup demo_env
        (snd (run demo_env
           (snd (signup demo_env init_store ann_id ''salt''
              (json_request None [] [(''username'', JStr ''alice''), (''password'', JStr ''pw1'')])))
           [(2, Signup bob_id ''salt'' (json_request None [] [(''username'', JStr ''bob''), (''password'', JStr ''pw2'')]))]))
        post1_id ''salt''
        (json_request None [] [(''username'', JStr ''alice''), (''password'', JStr ''pw3'')]) =
       (Response 409 (Text ''Username already exists''),
        snd (run demo_env
           (snd (signup demo_env init_store ann_id ''salt''
              (json_request None [] [(''username'', JStr ''alice''), (''password'', JStr ''pw1'')])))
           [(2, Signup bob_id ''salt'' (json_request None [] [(''username'', JStr ''bob''), (''password'', JStr ''pw2'')]))]))"
proof -
  let ?a = "\<lparr>u_id = ann_id, u_username = JStr ''alice'', u_password = JStr ''#pw1''\<rparr>"
  let ?st = "\<lparr>users = [?a], posts = []\<rparr>"
  let ?r1 = "json_request None [] [(''username'', JStr ''alice''), (''password'', JStr ''pw1'')]"
  let ?r2 = "json_request None [] [(''username'', JStr ''alice''), (''password'', JStr ''pw2'')]"
  let ?r3 = "json_request None [] [(''username'', JStr ''alice''), (''password'', JStr ''pw3'')]"
  let ?rb = "json_request None [] [(''username'', JStr ''bob''), (''password'', JStr ''pw2'')]"
  let ?cb = "(3 :: nat, Signup bob_id ''salt'' ?rb)"
  let ?cs' = "[(2 :: nat, Signup bob_id ''salt'' ?rb)]"
  have d: "distinct (usernames ?st)" by (simp add: usernames_def)
  from signup_username_unique [where st = ?st and E = demo_env and c = ?cb] d
  have d': "distinct (usernames (snd (handle demo_env ?st ?cb)))" by blast
  have r: "fst (run demo_env init_store [(1, Signup ann_id ''salt'' ?r1), (2, Signup bob_id ''salt'' ?r2)]) =
       [Response 201 (Text ''User created successfully''), Response 409 (Text ''Username already exists'')]"
    by (simp add: signup_def route_defs)
  have s: "status (fst (signup demo_env init_store ann_id ''salt'' ?r1)) = 201"
    by (simp add: signup_def route_defs)
  have e: "field (req_body ?r3) ''username'' = field (req_body ?r1) ''username''"
    by (simp add: field_def json_request_def)
  have t: "truthy (field (req_body ?r3) ''password'')"
    by (simp add: field_def json_request_def)
  from signup_username_unique [where st = init_store and E = demo_env] s e
  have "signup demo_env (snd (run demo_env (snd (signup demo_env init_store ann_id ''salt'' ?r1)) ?cs')) post1_id ''salt'' ?r3 =
          (if truthy (field (req_body ?r3) ''password'')
           then Response 409 (Text ''Username already exists'')
           else Response 400 (Text ''Username and password are required''),
           snd (run demo_env (snd (signup demo_env init_store ann_id ''salt'' ?r1)) ?cs'))"
    by blast
  with t have c: "signup demo_env (snd (run demo_env (snd (signup demo_env init_store ann_id ''salt'' ?r1)) ?cs')) post1_id ''salt'' ?r3 =
          (Response 409 (Text ''Username already exists''),
           snd (run demo_env (snd (signup demo_env init_store ann_id ''salt'' ?r1)) ?cs'))"
    by (simp only: if_True)
  from d d' r s c show ?thesis by blast
qed




end
